theory Spec2Isabelle
  imports Main
begin

section \<open>Document body\<close>

text \<open>
  Offsets are JavaScript numbers used as integers, so they are \<^typ>\<open>int\<close>. The data
  stream is a sequence of code units; \<open>\r\<close> ends a paragraph and \<open>\b\<close> stands for an
  embedded object.
\<close>

definition CR :: char where
  "CR = CHR 0x0D"

definition BS :: char where
  "BS = CHR 0x08"

record ITextRun =
  st :: int
  ed :: int
  ts :: string

record IParagraphStyle =
  hanging :: "int option"
  indentStart :: "int option"
  otherStyle :: string

record IParagraph =
  startIndex :: int
  paragraphStyle :: "IParagraphStyle option"
  bullet :: "string option"

record IDocumentBody =
  dataStream :: string
  textRuns :: "ITextRun list option"
  paragraphs :: "IParagraph list option"

text \<open>
  \<open>String.prototype.substring(start, end)\<close>: both indices are clamped to
  \<open>[0, length]\<close> and swapped when \<open>start > end\<close>.
\<close>

definition substring :: "string \<Rightarrow> int \<Rightarrow> int \<Rightarrow> string" where
  "substring s a b =
     (let n = int (length s);
          a' = max 0 (min a n);
          b' = max 0 (min b n);
          lo = min a' b';
          hi = max a' b'
      in take (nat (hi - lo)) (drop (nat lo) s))"

text \<open>The \<open>for (const textRun of originTextRuns)\<close> loop of \<open>getParagraphBody\<close>.\<close>

fun getParagraphBody_runs :: "int \<Rightarrow> int \<Rightarrow> ITextRun list \<Rightarrow> ITextRun list" where
  "getParagraphBody_runs startIdx endIdx [] = []"
| "getParagraphBody_runs startIdx endIdx (textRun # rest) =
     (if ed textRun \<le> startIdx \<or> st textRun \<ge> endIdx
      then getParagraphBody_runs startIdx endIdx rest
      else if st textRun < startIdx
      then textRun\<lparr>st := 0, ed := ed textRun - startIdx\<rparr>
             # getParagraphBody_runs startIdx endIdx rest
      else if ed textRun > endIdx
      then textRun\<lparr>st := st textRun - startIdx, ed := endIdx - startIdx\<rparr>
             # getParagraphBody_runs startIdx endIdx rest
      else textRun\<lparr>st := st textRun - startIdx, ed := ed textRun - startIdx\<rparr>
             # getParagraphBody_runs startIdx endIdx rest)"

definition getParagraphBody :: "IDocumentBody \<Rightarrow> int \<Rightarrow> int \<Rightarrow> IDocumentBody" where
  "getParagraphBody body startIdx endIdx =
     (case textRuns body of
        None \<Rightarrow>
          \<lparr>dataStream = substring (dataStream body) startIdx endIdx,
           textRuns = None, paragraphs = None\<rparr>
      | Some originTextRuns \<Rightarrow>
          \<lparr>dataStream = substring (dataStream body) startIdx endIdx,
           textRuns = Some (getParagraphBody_runs startIdx endIdx originTextRuns),
           paragraphs = None\<rparr>)"

definition helloWorld :: string where
  "helloWorld = ''Hello'' @ [CR] @ ''World'' @ [CR]"

definition helloWorldBody :: IDocumentBody where
  "helloWorldBody =
     \<lparr>dataStream = helloWorld,
      textRuns = Some [\<lparr>st = 0, ed = 12, ts = ''bold''\<rparr>],
      paragraphs = Some [\<lparr>startIndex = 5, paragraphStyle = None, bullet = None\<rparr>,
                         \<lparr>startIndex = 11, paragraphStyle = None, bullet = None\<rparr>]\<rparr>"

section \<open>Drawings, selections and the layout skeleton\<close>

datatype PositionedObjectLayoutType = INLINE | WRAP_NONE | WRAP_SQUARE | WRAP_TOP_AND_BOTTOM

record IDocDrawing =
  drawingKey :: string
  layoutType :: PositionedObjectLayoutType

record DocumentDataModel =
  getUnitId :: string
  getBody :: "IDocumentBody option"
  getDrawings :: "(string \<rightharpoonup> IDocDrawing) option"
  getDrawingsOrder :: "string list option"

record ITextActiveRange =
  startOffset :: int
  endOffset :: int
  collapsed :: bool
  segmentId :: string
  style :: string

text \<open>An entry of \<open>getSelections()\<close>; its offsets are nullable.\<close>

record TextRange =
  rangeStartOffset :: "int option"
  rangeEndOffset :: "int option"

text \<open>An entry of the \<open>textRanges\<close> a command hands on: the selection to set afterwards.\<close>

record ITextRangeWithStyle =
  cursorStartOffset :: int
  cursorEndOffset :: int
  cursorStyle :: string

text \<open>
  A glyph of the layout skeleton. The handlers compare glyphs as objects
  (\<open>preGlyph !== curGlyph\<close>), so a glyph carries its identity.
\<close>

record IDocumentSkeletonGlyph =
  glyphId :: nat
  content :: string
  streamType :: string
  drawingId :: "string option"
  count :: int

definition sameGlyph :: "IDocumentSkeletonGlyph option \<Rightarrow> IDocumentSkeletonGlyph option \<Rightarrow> bool" where
  "sameGlyph a b = (map_option glyphId a = map_option glyphId b)"

text \<open>
  What a handler reaches through its \<open>accessor\<close>: the selection service, the document
  registry, the skeleton (\<open>findGlyphByCharIndex\<close>) and the glyph helpers of the render
  engine, which are collaborators of the command layer.
\<close>

record accessor =
  getActiveRange :: "ITextActiveRange option"
  getSelections :: "TextRange list option"
  getCurrentUniverDocInstance :: "DocumentDataModel option"
  getSkeleton :: "(int \<Rightarrow> IDocumentSkeletonGlyph option) option"
  hasListGlyph :: "IDocumentSkeletonGlyph option \<Rightarrow> bool"
  isIndentByGlyph :: "IDocumentSkeletonGlyph option \<Rightarrow> IDocumentBody option \<Rightarrow> bool"
  isFirstGlyph :: "IDocumentSkeletonGlyph option \<Rightarrow> bool"
  getParagraphByGlyph :: "IDocumentSkeletonGlyph option \<Rightarrow> IDocumentBody option \<Rightarrow> IParagraph option"

section \<open>TextX actions and JSONX operations\<close>

datatype DeleteDirection = LEFT | RIGHT

text \<open>\<open>RETAIN len segmentId\<close>, \<open>INSERT body len segmentId\<close>, \<open>DELETE len segmentId\<close>.\<close>

datatype TextXAction =
    RETAIN int string
  | INSERT IDocumentBody int string
  | DELETE int string

datatype path_key = Key string | Index int | UndefinedKey

datatype json_value = DrawingValue IDocDrawing | StringValue string | UndefinedValue

datatype JSONXOp =
    EditOp "TextXAction list"
  | InsertOp "path_key list" json_value
  | RemoveOp "path_key list" json_value
  | ReplaceOp "path_key list" json_value json_value

text \<open>
  Modelled from the spec: the TextX builder is not among the sources. Section 4.1:
  \<open>push\<close> appends an action to the list in progress, adjacent RETAIN (or DELETE)
  actions of one segment are coalesced, and \<open>serialize\<close> hands the list on in order.
\<close>

fun push :: "TextXAction list \<Rightarrow> TextXAction \<Rightarrow> TextXAction list" where
  "push [] a = [a]"
| "push [RETAIN n s] (RETAIN m s') =
     (if s = s' then [RETAIN (n + m) s] else [RETAIN n s, RETAIN m s'])"
| "push [DELETE n s] (DELETE m s') =
     (if s = s' then [DELETE (n + m) s] else [DELETE n s, DELETE m s'])"
| "push [x] a = [x, a]"
| "push (x # y # ys) a = x # push (y # ys) a"

text \<open>
  Modelled from the spec: section 4.1, \<open>serialize\<close> produces the finished list, in the
  order the actions were pushed.
\<close>

definition serialize :: "TextXAction list \<Rightarrow> TextXAction list" where
  "serialize textX = textX"

text \<open>
  Modelled from the spec: the JSONX algebra is not among the sources. Section 4.2: each
  constructor yields an operation list, and \<open>compose a b\<close> has the effect of \<open>a\<close>
  followed by \<open>b\<close>; composing with the empty list (\<open>null\<close>) changes nothing.
\<close>

definition editOp :: "TextXAction list \<Rightarrow> JSONXOp list" where
  "editOp textXActions = [EditOp textXActions]"

text \<open>
  Modelled from the spec: section 4.2, \<open>removeOp(path, oldValue)\<close> as one operation.
\<close>

definition removeOp :: "path_key list \<Rightarrow> json_value \<Rightarrow> JSONXOp list" where
  "removeOp path oldValue = [RemoveOp path oldValue]"

text \<open>
  Modelled from the spec: section 4.2, \<open>compose(a, b)\<close> has the effect of applying
  \<open>a\<close>, then \<open>b\<close>.
\<close>

definition compose :: "JSONXOp list \<Rightarrow> JSONXOp list \<Rightarrow> JSONXOp list" where
  "compose a b = a @ b"

record IRichTextEditingMutationParams =
  unitId :: string
  actions :: "JSONXOp list"
  textRanges :: "ITextRangeWithStyle list"
  prevTextRanges :: "ITextActiveRange list"

section \<open>Command outcomes\<close>

datatype js_error = TypeError | ReferenceError | RangeError

text \<open>
  What a handler does: it throws, it returns a boolean without dispatching anything, or
  it returns the result of one dispatched command or mutation (\<open>Exec\<close>).
  \<open>NaN_length\<close> is the path of \<open>MergeTwoParagraphCommand\<close> on which \<open>endIndex\<close> is
  \<open>undefined\<close> and the DELETE length is not a number.
\<close>

datatype 'a outcome = Throw js_error | Return bool | Exec 'a | NaN_length

text \<open>\<open>Array.prototype.indexOf\<close>: the first index, or \<open>-1\<close>.\<close>

fun indexOf_from :: "'a list \<Rightarrow> 'a \<Rightarrow> int \<Rightarrow> int" where
  "indexOf_from [] x i = -1"
| "indexOf_from (y # ys) x i = (if y = x then i else indexOf_from ys x (i + 1))"

definition indexOf :: "'a list \<Rightarrow> 'a \<Rightarrow> int" where
  "indexOf xs x = indexOf_from xs x 0"

text \<open>A property key that is \<open>undefined\<close> reads the property \<open>"undefined"\<close>.\<close>

definition propertyKey :: "string option \<Rightarrow> string" where
  "propertyKey k = (case k of Some s \<Rightarrow> s | None \<Rightarrow> ''undefined'')"

definition pathKey :: "string option \<Rightarrow> path_key" where
  "pathKey k = (case k of Some s \<Rightarrow> Key s | None \<Rightarrow> UndefinedKey)"

definition idValue :: "string option \<Rightarrow> json_value" where
  "idValue k = (case k of Some s \<Rightarrow> StringValue s | None \<Rightarrow> UndefinedValue)"

definition drawingValue :: "IDocDrawing option \<Rightarrow> json_value" where
  "drawingValue d = (case d of Some v \<Rightarrow> DrawingValue v | None \<Rightarrow> UndefinedValue)"

section \<open>DeleteCustomBlockCommand\<close>

record IDeleteCustomBlockParams =
  blockDirection :: DeleteDirection
  blockRange :: ITextActiveRange
  blockUnitId :: string
  blockDrawingId :: "string option"

definition DeleteCustomBlockCommand ::
  "accessor \<Rightarrow> IDeleteCustomBlockParams \<Rightarrow> IRichTextEditingMutationParams outcome" where
  "DeleteCustomBlockCommand acc params =
     (case getActiveRange acc of
        None \<Rightarrow> Return False
      | Some activeRange \<Rightarrow>
     (case getCurrentUniverDocInstance acc of
        None \<Rightarrow> Return False
      | Some documentDataModel \<Rightarrow>
          (let direction = blockDirection params;
               cursor = (if direction = LEFT then startOffset activeRange - 1
                         else startOffset activeRange);
               ranges = [\<lparr>cursorStartOffset = cursor, cursorEndOffset = cursor,
                          cursorStyle = style activeRange\<rparr>];
               textX0 = (if startOffset activeRange > 0
                         then push [] (RETAIN (if direction = LEFT
                                               then startOffset activeRange - 1
                                               else startOffset activeRange)
                                              (segmentId activeRange))
                         else []);
               textX = push textX0 (DELETE 1 (segmentId activeRange));
               drawing = (case getDrawings documentDataModel of
                            None \<Rightarrow> None
                          | Some ds \<Rightarrow> ds (propertyKey (blockDrawingId params)))
           in (case getDrawingsOrder documentDataModel of
                 None \<Rightarrow> Throw TypeError
               | Some drawingOrder \<Rightarrow>
                   (let drawingIndex = (case blockDrawingId params of
                                          None \<Rightarrow> -1
                                        | Some d \<Rightarrow> indexOf drawingOrder d);
                        rawActions =
                          [editOp (serialize textX),
                           removeOp [Key ''drawings'', pathKey (blockDrawingId params)]
                                    (drawingValue drawing),
                           removeOp [Key ''drawingsOrder'', Index drawingIndex]
                                    (idValue (blockDrawingId params))]
                    in Exec \<lparr>unitId = blockUnitId params,
                             actions = foldl compose [] rawActions,
                             textRanges = ranges,
                             prevTextRanges = [blockRange params]\<rparr>)))))"

section \<open>MergeTwoParagraphCommand\<close>

record IMergeTwoParagraphParams =
  mergeDirection :: DeleteDirection
  mergeRange :: ITextActiveRange

text \<open>
  \<open>getBody()?.paragraphs?.find((p) => p.startIndex >= startIndex)?.startIndex\<close>
\<close>

definition findEndIndex :: "IDocumentBody option \<Rightarrow> int \<Rightarrow> int option" where
  "findEndIndex body startIdx =
     (case body of
        None \<Rightarrow> None
      | Some b \<Rightarrow>
          (case paragraphs b of
             None \<Rightarrow> None
           | Some ps \<Rightarrow> map_option startIndex (find (\<lambda>p. startIndex p \<ge> startIdx) ps)))"

definition MergeTwoParagraphCommand ::
  "accessor \<Rightarrow> IMergeTwoParagraphParams \<Rightarrow> IRichTextEditingMutationParams outcome" where
  "MergeTwoParagraphCommand acc params =
     (case getActiveRange acc of
        None \<Rightarrow> Return False
      | Some activeRange \<Rightarrow>
     (case getCurrentUniverDocInstance acc of
        None \<Rightarrow> Return False
      | Some docDataModel \<Rightarrow>
          if \<not> collapsed activeRange then Return False
          else
            (let direction = mergeDirection params;
                 startIdx = (if direction = LEFT then startOffset activeRange
                             else startOffset activeRange + 1)
             in (case getBody docDataModel of
                   None \<Rightarrow> Throw TypeError
                 | Some b \<Rightarrow>
                (case findEndIndex (getBody docDataModel) startIdx of
                   None \<Rightarrow> NaN_length
                 | Some endIdx \<Rightarrow>
                     (let body = getParagraphBody b startIdx endIdx;
                          cursor = (if direction = LEFT then startOffset activeRange - 1
                                    else startOffset activeRange);
                          ranges = [\<lparr>cursorStartOffset = cursor, cursorEndOffset = cursor,
                                     cursorStyle = style activeRange\<rparr>];
                          textX1 = push [] (RETAIN (if direction = LEFT
                                                    then startOffset activeRange - 1
                                                    else startOffset activeRange)
                                                   (segmentId activeRange));
                          textX2 = (if length (dataStream body) \<noteq> 0
                                    then push textX1 (INSERT body (int (length (dataStream body)))
                                                             (segmentId activeRange))
                                    else textX1);
                          textX3 = push textX2 (RETAIN 1 (segmentId activeRange));
                          textX4 = push textX3 (DELETE (endIdx + 1 - startIdx)
                                                       (segmentId activeRange))
                      in Exec \<lparr>unitId = getUnitId docDataModel,
                               actions = editOp (serialize textX4),
                               textRanges = ranges,
                               prevTextRanges = [mergeRange params]\<rparr>))))))"

section \<open>DeleteLeftCommand and DeleteRightCommand\<close>

datatype UpdateDocsAttributeType = COVER | REPLACE

record IUpdateCommandParams =
  updateUnitId :: string
  updateBody :: IDocumentBody
  updateRange :: "int \<times> int"
  updateTextRanges :: "ITextRangeWithStyle list"
  coverType :: UpdateDocsAttributeType
  updateSegmentId :: string

record IDeleteCommandParams =
  deleteUnitId :: string
  deleteRange :: ITextActiveRange
  deleteSegmentId :: string
  deleteDirection :: DeleteDirection
  deleteLen :: int
  deleteTextRanges :: "ITextRangeWithStyle list"

text \<open>The commands a delete handler dispatches through \<open>executeCommand\<close>.\<close>

datatype command_call =
    ExecUpdate IUpdateCommandParams
  | ExecMergeTwoParagraph IMergeTwoParagraphParams
  | ExecDeleteCustomBlock IDeleteCustomBlockParams
  | ExecDelete IDeleteCommandParams
  | ExecCutContent string "ITextRangeWithStyle list"

text \<open>The loop of \<open>getTextRangesWhenDelete\<close> over the selections.\<close>

fun getTextRangesWhenDelete_cursor :: "ITextActiveRange \<Rightarrow> TextRange list \<Rightarrow> int \<Rightarrow> int" where
  "getTextRangesWhenDelete_cursor activeRange [] cursor = cursor"
| "getTextRangesWhenDelete_cursor activeRange (r # rs) cursor =
     (case rangeStartOffset r of
        None \<Rightarrow> getTextRangesWhenDelete_cursor activeRange rs cursor
      | Some so \<Rightarrow>
          (case rangeEndOffset r of
             None \<Rightarrow> getTextRangesWhenDelete_cursor activeRange rs cursor
           | Some eo \<Rightarrow>
               if eo \<le> endOffset activeRange
               then getTextRangesWhenDelete_cursor activeRange rs (cursor - (eo - so))
               else getTextRangesWhenDelete_cursor activeRange rs cursor))"

definition getTextRangesWhenDelete ::
  "ITextActiveRange \<Rightarrow> TextRange list \<Rightarrow> ITextRangeWithStyle list" where
  "getTextRangesWhenDelete activeRange ranges =
     (let cursor = getTextRangesWhenDelete_cursor activeRange ranges (endOffset activeRange)
      in [\<lparr>cursorStartOffset = cursor, cursorEndOffset = cursor,
           cursorStyle = style activeRange\<rparr>])"

text \<open>
  The paragraph handed to \<open>UpdateCommand\<close> when BACKSPACE stands at the first glyph of
  a bulleted or indented paragraph. In the bullet branch the source builds it by writing
  into the paragraph's own style object; that write is \<open>DeleteLeftCommand_paragraphWrite\<close>
  below, and the values handed on are the same.
\<close>

definition updateParagraphOf :: "bool \<Rightarrow> bool \<Rightarrow> IParagraph \<Rightarrow> IParagraph" where
  "updateParagraphOf isBullet isIndent paragraph =
     (if isBullet then
        (case paragraphStyle paragraph of
           None \<Rightarrow> \<lparr>startIndex = 0, paragraphStyle = None, bullet = None\<rparr>
         | Some ps \<Rightarrow>
             \<lparr>startIndex = 0,
              paragraphStyle =
                Some (case hanging ps of
                        None \<Rightarrow> ps
                      | Some h \<Rightarrow> if h \<noteq> 0 then ps\<lparr>indentStart := Some h, hanging := None\<rparr>
                                  else ps),
              bullet = None\<rparr>)
      else if isIndent then
        \<lparr>startIndex = 0,
         paragraphStyle =
           (case paragraphStyle paragraph of
              None \<Rightarrow> None
            | Some ps \<Rightarrow> Some (ps\<lparr>hanging := None, indentStart := None\<rparr>)),
         bullet = bullet paragraph\<rparr>
      else \<lparr>startIndex = 0, paragraphStyle = None, bullet = None\<rparr>)"

definition isUpdateParagraph ::
  "accessor \<Rightarrow> DocumentDataModel \<Rightarrow> (int \<Rightarrow> IDocumentSkeletonGlyph option) \<Rightarrow> int \<Rightarrow> bool" where
  "isUpdateParagraph acc docDataModel skeleton offset =
     (let curGlyph = skeleton offset;
          isBullet = hasListGlyph acc curGlyph;
          isIndent = isIndentByGlyph acc curGlyph (getBody docDataModel);
          preGlyph = skeleton (offset - 1)
      in isFirstGlyph acc curGlyph \<and> \<not> sameGlyph preGlyph curGlyph \<and> (isBullet \<or> isIndent))"

text \<open>\<open>getSnapshot().drawings?.[glyph.drawingId ?? '']\<close>\<close>

definition snapshotDrawing :: "DocumentDataModel \<Rightarrow> string option \<Rightarrow> IDocDrawing option" where
  "snapshotDrawing docDataModel key =
     (case getDrawings docDataModel of
        None \<Rightarrow> None
      | Some ds \<Rightarrow> ds (case key of Some k \<Rightarrow> k | None \<Rightarrow> []))"

definition DeleteLeftCommand :: "accessor \<Rightarrow> command_call outcome" where
  "DeleteLeftCommand acc =
     (case getCurrentUniverDocInstance acc of
        None \<Rightarrow> Return False
      | Some docDataModel \<Rightarrow>
     (case getActiveRange acc of
        None \<Rightarrow> Return False
      | Some activeRange \<Rightarrow>
     (case getSkeleton acc of
        None \<Rightarrow> Return False
      | Some skeleton \<Rightarrow>
     (case getSelections acc of
        None \<Rightarrow> Return False
      | Some ranges \<Rightarrow>
          (let curGlyph = skeleton (startOffset activeRange);
               isBullet = hasListGlyph acc curGlyph;
               isIndent = isIndentByGlyph acc curGlyph (getBody docDataModel);
               preGlyph = skeleton (startOffset activeRange - 1)
           in if isUpdateParagraph acc docDataModel skeleton (startOffset activeRange)
                 \<and> collapsed activeRange
              then
                (case getParagraphByGlyph acc curGlyph (getBody docDataModel) of
                   None \<Rightarrow> Return False
                 | Some paragraph \<Rightarrow>
                     Exec (ExecUpdate
                       \<lparr>updateUnitId = getUnitId docDataModel,
                        updateBody =
                          \<lparr>dataStream = [], textRuns = None,
                           paragraphs = Some [updateParagraphOf isBullet isIndent paragraph]\<rparr>,
                        updateRange = (startIndex paragraph, startIndex paragraph + 1),
                        updateTextRanges =
                          [\<lparr>cursorStartOffset = startOffset activeRange,
                            cursorEndOffset = startOffset activeRange,
                            cursorStyle = style activeRange\<rparr>],
                        coverType = REPLACE,
                        updateSegmentId = segmentId activeRange\<rparr>))
              else if collapsed activeRange then
                (case preGlyph of
                   None \<Rightarrow> Return True
                 | Some pre \<Rightarrow>
                     if content pre = [CR] then
                       Exec (ExecMergeTwoParagraph
                         \<lparr>mergeDirection = LEFT, mergeRange = activeRange\<rparr>)
                     else if streamType pre = [BS] then
                       (case snapshotDrawing docDataModel (drawingId pre) of
                          None \<Rightarrow> Return True
                        | Some drawing \<Rightarrow>
                            if layoutType drawing = INLINE then
                              Exec (ExecDeleteCustomBlock
                                \<lparr>blockDirection = LEFT, blockRange = activeRange,
                                 blockUnitId = getUnitId docDataModel,
                                 blockDrawingId = drawingId pre\<rparr>)
                            else
                              (case skeleton (startOffset activeRange - 2) of
                                 None \<Rightarrow> Return True
                               | Some prePre \<Rightarrow>
                                   Exec (ExecDelete
                                     \<lparr>deleteUnitId = getUnitId docDataModel,
                                      deleteRange =
                                        activeRange
                                          \<lparr>startOffset := startOffset activeRange - 1,
                                           endOffset := endOffset activeRange - 1\<rparr>,
                                      deleteSegmentId = segmentId activeRange,
                                      deleteDirection = LEFT,
                                      deleteLen = count prePre,
                                      deleteTextRanges =
                              [\<lparr>cursorStartOffset = startOffset activeRange - count pre - count prePre,
                                cursorEndOffset = startOffset activeRange - count pre - count prePre,
                                cursorStyle = style activeRange\<rparr>]\<rparr>)))
                     else
                       Exec (ExecDelete
                         \<lparr>deleteUnitId = getUnitId docDataModel,
                          deleteRange = activeRange,
                          deleteSegmentId = segmentId activeRange,
                          deleteDirection = LEFT,
                          deleteLen = count pre,
                          deleteTextRanges =
                            [\<lparr>cursorStartOffset = startOffset activeRange - count pre,
                              cursorEndOffset = startOffset activeRange - count pre,
                              cursorStyle = style activeRange\<rparr>]\<rparr>))
              else
                Exec (ExecCutContent (segmentId activeRange)
                        (getTextRangesWhenDelete activeRange ranges)))))))"

definition DeleteRightCommand :: "accessor \<Rightarrow> command_call outcome" where
  "DeleteRightCommand acc =
     (case getCurrentUniverDocInstance acc of
        None \<Rightarrow> Return False
      | Some documentDataModel \<Rightarrow>
     (case getActiveRange acc of
        None \<Rightarrow> Return False
      | Some activeRange \<Rightarrow>
     (case getSkeleton acc of
        None \<Rightarrow> Return False
      | Some skeleton \<Rightarrow>
     (case getSelections acc of
        None \<Rightarrow> Return False
      | Some ranges \<Rightarrow>
     (case getBody documentDataModel of
        None \<Rightarrow> Throw TypeError
      | Some body \<Rightarrow>
          if startOffset activeRange = int (length (dataStream body)) - 2
             \<and> collapsed activeRange
          then Return True
          else if collapsed activeRange then
            (case skeleton (startOffset activeRange) of
               None \<Rightarrow> Throw TypeError
             | Some needDeleteGlyph \<Rightarrow>
                 if content needDeleteGlyph = [CR] then
                   Exec (ExecMergeTwoParagraph
                     \<lparr>mergeDirection = RIGHT, mergeRange = activeRange\<rparr>)
                 else if streamType needDeleteGlyph = [BS] then
                   (case snapshotDrawing documentDataModel (drawingId needDeleteGlyph) of
                      None \<Rightarrow> Return True
                    | Some drawing \<Rightarrow>
                        if layoutType drawing = INLINE then
                          Exec (ExecDeleteCustomBlock
                            \<lparr>blockDirection = RIGHT, blockRange = activeRange,
                             blockUnitId = getUnitId documentDataModel,
                             blockDrawingId = drawingId needDeleteGlyph\<rparr>)
                        else
                          (case skeleton (startOffset activeRange + 1) of
                             None \<Rightarrow> Return True
                           | Some nextGlyph \<Rightarrow>
                               Exec (ExecDelete
                                 \<lparr>deleteUnitId = getUnitId documentDataModel,
                                  deleteRange =
                                    activeRange
                                      \<lparr>startOffset := startOffset activeRange + 1,
                                       endOffset := endOffset activeRange + 1\<rparr>,
                                  deleteSegmentId = segmentId activeRange,
                                  deleteDirection = RIGHT,
                                  deleteLen = count nextGlyph,
                                  deleteTextRanges =
                              [\<lparr>cursorStartOffset = startOffset activeRange + 1,
                                cursorEndOffset = startOffset activeRange + 1,
                                cursorStyle = style activeRange\<rparr>]\<rparr>)))
                 else
                   Exec (ExecDelete
                     \<lparr>deleteUnitId = getUnitId documentDataModel,
                      deleteRange = activeRange,
                      deleteSegmentId = segmentId activeRange,
                      deleteDirection = RIGHT,
                      deleteLen = count needDeleteGlyph,
                      deleteTextRanges =
                        [\<lparr>cursorStartOffset = startOffset activeRange,
                          cursorEndOffset = startOffset activeRange,
                          cursorStyle = style activeRange\<rparr>]\<rparr>))
          else
            Exec (ExecCutContent (segmentId activeRange)
                    (getTextRangesWhenDelete activeRange ranges)))))))"

section \<open>Applying a mutation\<close>

text \<open>
  The part of a document the claims observe: the data stream, the drawings table, the
  drawing order and the selection set by the last mutation.
\<close>

record DocSnapshot =
  snapDataStream :: string
  snapDrawings :: "string \<rightharpoonup> IDocDrawing"
  snapDrawingsOrder :: "string list"
  snapTextRanges :: "ITextRangeWithStyle list"

definition snapshotOf :: "accessor \<Rightarrow> DocSnapshot" where
  "snapshotOf acc =
     \<lparr>snapDataStream =
        (case getCurrentUniverDocInstance acc of
           None \<Rightarrow> []
         | Some d \<Rightarrow> (case getBody d of None \<Rightarrow> [] | Some b \<Rightarrow> dataStream b)),
      snapDrawings =
        (case getCurrentUniverDocInstance acc of
           None \<Rightarrow> Map.empty
         | Some d \<Rightarrow> (case getDrawings d of None \<Rightarrow> Map.empty | Some m \<Rightarrow> m)),
      snapDrawingsOrder =
        (case getCurrentUniverDocInstance acc of
           None \<Rightarrow> []
         | Some d \<Rightarrow> (case getDrawingsOrder d of None \<Rightarrow> [] | Some xs \<Rightarrow> xs)),
      snapTextRanges =
        (case getActiveRange acc of
           None \<Rightarrow> []
         | Some r \<Rightarrow> [\<lparr>cursorStartOffset = startOffset r, cursorEndOffset = endOffset r,
                        cursorStyle = style r\<rparr>])\<rparr>"

text \<open>
  Modelled from the spec: the applier of TextX actions is not among the sources.
  Section 3: the actions walk the stream; RETAIN advances the cursor without change,
  INSERT adds its body's content at the cursor, DELETE removes content at the cursor,
  and RETAIN and DELETE must not run past the end of the stream (\<open>None\<close>). What the
  actions do not reach is kept.
\<close>

fun applyTextX :: "TextXAction list \<Rightarrow> string \<Rightarrow> string option" where
  "applyTextX [] s = Some s"
| "applyTextX (RETAIN n seg # as) s =
     (if 0 \<le> n \<and> n \<le> int (length s)
      then map_option (\<lambda>r. take (nat n) s @ r) (applyTextX as (drop (nat n) s))
      else None)"
| "applyTextX (INSERT body n seg # as) s =
     map_option (\<lambda>r. dataStream body @ r) (applyTextX as s)"
| "applyTextX (DELETE n seg # as) s =
     (if 0 \<le> n \<and> n \<le> int (length s)
      then applyTextX as (drop (nat n) s)
      else None)"

text \<open>
  Modelled from the spec: removing the entry at an index of the drawing order.
\<close>

definition removeAt :: "nat \<Rightarrow> 'a list \<Rightarrow> 'a list" where
  "removeAt i xs = take i xs @ drop (Suc i) xs"

text \<open>
  Modelled from the spec: the applier of JSONX operations is not among the sources.
  Section 4.2: \<open>removeOp\<close> asserts that the value at the path is \<open>oldValue\<close> and
  removes it, \<open>insertOp\<close> asserts that the position is unoccupied and inserts the value,
  \<open>editOp\<close> applies its TextX actions to the body; an assertion that does not hold is a
  conflict (\<open>None\<close>). The paths are those of the drawings table and the drawing order.
\<close>

definition applyJSONXOp :: "JSONXOp \<Rightarrow> DocSnapshot \<Rightarrow> DocSnapshot option" where
  "applyJSONXOp op s =
     (case op of
        EditOp textXActions \<Rightarrow>
          map_option (\<lambda>t. s\<lparr>snapDataStream := t\<rparr>) (applyTextX textXActions (snapDataStream s))
      | RemoveOp path oldValue \<Rightarrow>
          (case path of
             [Key k, Key d] \<Rightarrow>
               if k = ''drawings'' \<and> snapDrawings s d \<noteq> None
                  \<and> drawingValue (snapDrawings s d) = oldValue
               then Some (s\<lparr>snapDrawings := (snapDrawings s)(d := None)\<rparr>)
               else None
           | [Key k, Index i] \<Rightarrow>
               if k = ''drawingsOrder'' \<and> 0 \<le> i \<and> i < int (length (snapDrawingsOrder s))
                  \<and> StringValue (snapDrawingsOrder s ! nat i) = oldValue
               then Some (s\<lparr>snapDrawingsOrder := removeAt (nat i) (snapDrawingsOrder s)\<rparr>)
               else None
           | _ \<Rightarrow> None)
      | InsertOp path v \<Rightarrow>
          (case path of
             [Key k, Key d] \<Rightarrow>
               (case v of
                  DrawingValue dr \<Rightarrow>
                    if k = ''drawings'' \<and> snapDrawings s d = None
                    then Some (s\<lparr>snapDrawings := (snapDrawings s)(d \<mapsto> dr)\<rparr>)
                    else None
                | _ \<Rightarrow> None)
           | [Key k, Index i] \<Rightarrow>
               (case v of
                  StringValue x \<Rightarrow>
                    if k = ''drawingsOrder'' \<and> 0 \<le> i \<and> i \<le> int (length (snapDrawingsOrder s))
                    then Some (s\<lparr>snapDrawingsOrder :=
                                     take (nat i) (snapDrawingsOrder s) @ [x]
                                       @ drop (nat i) (snapDrawingsOrder s)\<rparr>)
                    else None
                | _ \<Rightarrow> None)
           | _ \<Rightarrow> None)
      | ReplaceOp path oldValue newValue \<Rightarrow> None)"

text \<open>
  Modelled from the spec: an operation list is applied in order, and a conflict
  anywhere in it applies nothing.
\<close>

fun applyJSONX :: "JSONXOp list \<Rightarrow> DocSnapshot \<Rightarrow> DocSnapshot option" where
  "applyJSONX [] s = Some s"
| "applyJSONX (op # ops) s =
     (case applyJSONXOp op s of None \<Rightarrow> None | Some s' \<Rightarrow> applyJSONX ops s')"

text \<open>
  Modelled from the spec: \<open>RichTextEditingMutation\<close> is not among the sources.
  Section 4.3: it applies the composed actions to the body and drawings of the unit and
  returns success or failure; a conflict applies nothing. On success the selection
  becomes the mutation's \<open>textRanges\<close>.
\<close>

definition RichTextEditingMutation ::
  "IRichTextEditingMutationParams \<Rightarrow> DocSnapshot \<Rightarrow> bool \<times> DocSnapshot" where
  "RichTextEditingMutation params s =
     (case applyJSONX (actions params) s of
        None \<Rightarrow> (False, s)
      | Some s' \<Rightarrow> (True, s'\<lparr>snapTextRanges := textRanges params\<rparr>))"

text \<open>
  Modelled from the spec: \<open>DeleteCommand\<close> is not among the sources. Section 4.4: a
  plain DELETE action of the given length, ending at the range's start for BACKSPACE
  and starting there for DELETE; it touches the text only.
\<close>

definition DeleteCommand :: "IDeleteCommandParams \<Rightarrow> IRichTextEditingMutationParams outcome" where
  "DeleteCommand params =
     (let so = startOffset (deleteRange params);
          textX0 = (if so > 0
                    then push [] (RETAIN (if deleteDirection params = LEFT
                                          then so - deleteLen params else so)
                                         (deleteSegmentId params))
                    else []);
          textX = push textX0 (DELETE (deleteLen params) (deleteSegmentId params))
      in Exec \<lparr>unitId = deleteUnitId params,
               actions = editOp (serialize textX),
               textRanges = deleteTextRanges params,
               prevTextRanges = [deleteRange params]\<rparr>)"

text \<open>
  Modelled from the spec: whether a stream position lies in one of the selected ranges
  (the union of the ranges that \<open>CutContentCommand\<close> cuts), and the stream without the
  positions that do.
\<close>

definition covered :: "int \<Rightarrow> TextRange list \<Rightarrow> bool" where
  "covered i ranges =
     list_ex (\<lambda>r. case rangeStartOffset r of
                    None \<Rightarrow> False
                  | Some so \<Rightarrow> (case rangeEndOffset r of
                                 None \<Rightarrow> False
                               | Some eo \<Rightarrow> so \<le> i \<and> i < eo)) ranges"

fun removeCovered :: "int \<Rightarrow> string \<Rightarrow> TextRange list \<Rightarrow> string" where
  "removeCovered i [] ranges = []"
| "removeCovered i (c # cs) ranges =
     (if covered i ranges then removeCovered (i + 1) cs ranges
      else c # removeCovered (i + 1) cs ranges)"

text \<open>
  Modelled from the spec: \<open>CutContentCommand\<close> is not among the sources. Section 4.4
  and Scenario C: it cuts the union of the selected ranges out of the data stream, and
  the selection becomes the \<open>textRanges\<close> it was given.
\<close>

definition CutContentCommand ::
  "accessor \<Rightarrow> string \<Rightarrow> ITextRangeWithStyle list \<Rightarrow> DocSnapshot \<Rightarrow> bool \<times> DocSnapshot" where
  "CutContentCommand acc seg ranges s =
     (case getSelections acc of
        None \<Rightarrow> (False, s)
      | Some selections \<Rightarrow>
          (True, s\<lparr>snapDataStream := removeCovered 0 (snapDataStream s) selections,
                   snapTextRanges := ranges\<rparr>))"

section \<open>A key press, end to end\<close>

datatype run_result = Threw js_error | Finished bool DocSnapshot | Unmodelled

definition finish ::
  "accessor \<Rightarrow> IRichTextEditingMutationParams outcome \<Rightarrow> run_result" where
  "finish acc out =
     (case out of
        Throw e \<Rightarrow> Threw e
      | Return b \<Rightarrow> Finished b (snapshotOf acc)
      | Exec m \<Rightarrow>
          (case RichTextEditingMutation m (snapshotOf acc) of (ok, s) \<Rightarrow> Finished ok s)
      | NaN_length \<Rightarrow> Unmodelled)"

text \<open>
  \<open>commandService.executeCommand\<close> for the commands the delete handlers dispatch.
  \<open>UpdateCommand\<close> is not among the sources and the spec does not describe its effect.
\<close>

definition executeCommand :: "accessor \<Rightarrow> command_call \<Rightarrow> run_result" where
  "executeCommand acc call =
     (case call of
        ExecUpdate p \<Rightarrow> Unmodelled
      | ExecMergeTwoParagraph p \<Rightarrow> finish acc (MergeTwoParagraphCommand acc p)
      | ExecDeleteCustomBlock p \<Rightarrow> finish acc (DeleteCustomBlockCommand acc p)
      | ExecDelete p \<Rightarrow> finish acc (DeleteCommand p)
      | ExecCutContent seg ranges \<Rightarrow>
          (case CutContentCommand acc seg ranges (snapshotOf acc) of
             (ok, s) \<Rightarrow> Finished ok s))"

definition run :: "accessor \<Rightarrow> command_call outcome \<Rightarrow> run_result" where
  "run acc out =
     (case out of
        Throw e \<Rightarrow> Threw e
      | Return b \<Rightarrow> Finished b (snapshotOf acc)
      | Exec call \<Rightarrow> executeCommand acc call
      | NaN_length \<Rightarrow> Unmodelled)"

definition pressBackspace :: "accessor \<Rightarrow> run_result" where
  "pressBackspace acc = run acc (DeleteLeftCommand acc)"

definition pressDelete :: "accessor \<Rightarrow> run_result" where
  "pressDelete acc = run acc (DeleteRightCommand acc)"

section \<open>Scenario fixtures\<close>

text \<open>
  A skeleton with one glyph per code unit of a data stream; \<open>drawingAt\<close> names the
  drawing of an object glyph.
\<close>

definition textSkeleton ::
  "string \<Rightarrow> (int \<Rightarrow> string option) \<Rightarrow> int \<Rightarrow> IDocumentSkeletonGlyph option" where
  "textSkeleton ds drawingAt i =
     (if 0 \<le> i \<and> i < int (length ds)
      then Some \<lparr>glyphId = nat i, content = [ds ! nat i], streamType = [ds ! nat i],
                 drawingId = drawingAt i, count = 1\<rparr>
      else None)"

definition plainAccessor ::
  "DocumentDataModel \<Rightarrow> ITextActiveRange option \<Rightarrow> TextRange list option \<Rightarrow>
   (int \<Rightarrow> IDocumentSkeletonGlyph option) option \<Rightarrow> bool \<Rightarrow> accessor" where
  "plainAccessor doc activeRange ranges skeleton isList =
     \<lparr>getActiveRange = activeRange,
      getSelections = ranges,
      getCurrentUniverDocInstance = Some doc,
      getSkeleton = skeleton,
      hasListGlyph = (\<lambda>g. isList),
      isIndentByGlyph = (\<lambda>g b. False),
      isFirstGlyph = (\<lambda>g. case g of None \<Rightarrow> False | Some x \<Rightarrow> glyphId x = 0),
      getParagraphByGlyph =
        (\<lambda>g b. case b of
                  None \<Rightarrow> None
                | Some body \<Rightarrow> (case paragraphs body of
                                 None \<Rightarrow> None
                               | Some ps \<Rightarrow> (case ps of [] \<Rightarrow> None | p # rest \<Rightarrow> Some p)))\<rparr>"

definition collapsedAt :: "int \<Rightarrow> ITextActiveRange" where
  "collapsedAt i =
     \<lparr>startOffset = i, endOffset = i, collapsed = True, segmentId = [], style = ''s''\<rparr>"

definition helloWorldDoc :: DocumentDataModel where
  "helloWorldDoc =
     \<lparr>getUnitId = ''doc'', getBody = Some helloWorldBody,
      getDrawings = Some Map.empty, getDrawingsOrder = Some []\<rparr>"

definition helloWorldSkeleton :: "int \<Rightarrow> IDocumentSkeletonGlyph option" where
  "helloWorldSkeleton = textSkeleton helloWorld (\<lambda>i. None)"

definition helloWorldAccessor :: "ITextActiveRange option \<Rightarrow> TextRange list option \<Rightarrow> bool \<Rightarrow> accessor" where
  "helloWorldAccessor activeRange ranges isList =
     plainAccessor helloWorldDoc activeRange ranges (Some helloWorldSkeleton) isList"

definition drawingStream :: string where
  "drawingStream = ''abc'' @ [BS] @ ''def'' @ [CR]"

definition drawingDoc :: "PositionedObjectLayoutType \<Rightarrow> DocumentDataModel" where
  "drawingDoc layout =
     \<lparr>getUnitId = ''doc'',
      getBody = Some \<lparr>dataStream = drawingStream, textRuns = None,
                      paragraphs = Some [\<lparr>startIndex = 7, paragraphStyle = None,
                                          bullet = None\<rparr>]\<rparr>,
      getDrawings = Some [''d1'' \<mapsto> \<lparr>drawingKey = ''d1'', layoutType = layout\<rparr>],
      getDrawingsOrder = Some [''d1'']\<rparr>"

definition drawingSkeleton :: "int \<Rightarrow> IDocumentSkeletonGlyph option" where
  "drawingSkeleton = textSkeleton drawingStream (\<lambda>i. if i = 3 then Some ''d1'' else None)"

definition drawingAccessor :: "PositionedObjectLayoutType \<Rightarrow> accessor" where
  "drawingAccessor layout =
     plainAccessor (drawingDoc layout) (Some (collapsedAt 4)) (Some [])
       (Some drawingSkeleton) False"

definition selection25 :: ITextActiveRange where
  "selection25 =
     \<lparr>startOffset = 2, endOffset = 5, collapsed = False, segmentId = [], style = ''s''\<rparr>"

section \<open>The cursor after a cut, in the words of the spec\<close>

text \<open>
  The total length of the selected ranges that end at or before an offset; a range
  with a missing offset counts for nothing.
\<close>

definition rangeLength :: "TextRange \<Rightarrow> int" where
  "rangeLength r =
     (case rangeStartOffset r of
        None \<Rightarrow> 0
      | Some so \<Rightarrow> (case rangeEndOffset r of None \<Rightarrow> 0 | Some eo \<Rightarrow> eo - so))"

definition endsAtOrBefore :: "int \<Rightarrow> TextRange \<Rightarrow> bool" where
  "endsAtOrBefore e r =
     (case rangeStartOffset r of
        None \<Rightarrow> False
      | Some so \<Rightarrow> (case rangeEndOffset r of None \<Rightarrow> False | Some eo \<Rightarrow> eo \<le> e))"

definition selectedLengthUpTo :: "int \<Rightarrow> TextRange list \<Rightarrow> int" where
  "selectedLengthUpTo e ranges = sum_list (map rangeLength (filter (endsAtOrBefore e) ranges))"

section \<open>Sheet commands: mutations, the interceptor and the undo stack\<close>

datatype RANGE_TYPE = NORMAL | ROW | COLUMN | ALL_SHEET

record IRange =
  startRow :: int
  endRow :: int
  startColumn :: int
  endColumn :: int
  rangeType :: "RANGE_TYPE option"

datatype Direction = UP | DOWN | LEFTWARD | RIGHTWARD

text \<open>\<open>{ h, hd: BooleanNumber.FALSE }\<close> and \<open>{ w, hd: BooleanNumber.FALSE }\<close>\<close>

record IRowColInfo =
  extent :: int
  hidden :: bool

record ISetWorksheetColWidthMutationParams =
  colSubUnitId :: string
  colUnitId :: string
  colRanges :: "IRange list"
  colWidth :: int

record IInsertMutationParams =
  insertUnitId :: string
  insertSubUnitId :: string
  insertRange :: IRange
  insertInfo :: "IRowColInfo list"

text \<open>
  The parameters of a mutation. What an undo factory or an interceptor builds, and the
  drawing parameters a caller hands in, are opaque to the commands.
\<close>

datatype mutation_params =
    ColWidthParams ISetWorksheetColWidthMutationParams
  | InsertParams IInsertMutationParams
  | SetRangeValuesParams string string string
  | DrawingParams "string list"
  | UnitIdParams "string list"
  | OpaqueParams string

datatype mutation_id =
    SetWorksheetColWidthMutation
  | InsertRowMutation
  | RemoveRowMutation
  | InsertColMutation
  | RemoveColMutation
  | SetRangeValuesMutation
  | SetImageMutation
  | SetDrawingMutation
  | ClearSheetDrawingTransformerOperation
  | OtherMutation string

record IMutationInfo =
  mutationId :: mutation_id
  mutationParams :: mutation_params

record IUndoRedoItem =
  unitID :: string
  undoMutations :: "IMutationInfo list"
  redoMutations :: "IMutationInfo list"

text \<open>What \<open>sheetInterceptorService.onCommandExecute\<close> returns.\<close>

record IInterceptedMutations =
  undos :: "IMutationInfo list"
  redos :: "IMutationInfo list"
  preUndos :: "IMutationInfo list option"
  preRedos :: "IMutationInfo list option"

record Worksheet =
  getColumnWidth :: "int \<Rightarrow> int"
  getRowHeight :: "int \<Rightarrow> int"
  getRowCount :: int
  getColumnCount :: nat
  getMaxRows :: int

record ISheetCommandTarget =
  targetWorksheet :: Worksheet
  targetUnitId :: string
  targetSubUnitId :: string

text \<open>
  The state the sheet commands act on: every mutation run through
  \<open>syncExecuteCommand\<close> with the boolean its handler returned, in order, and the
  undo/redo stack.
\<close>

record sheet_state =
  executed :: "(IMutationInfo \<times> bool) list"
  undoStack :: "IUndoRedoItem list"

text \<open>
  What a sheet handler reaches through its accessor. The mutation handlers, the undo
  factories, the interceptors and \<open>followSelectionOperation\<close> are collaborators of the
  commands: \<open>mutationResult\<close> is the boolean a mutation's handler returns after the
  mutations run so far.
\<close>

record sheet_accessor =
  getSheetSelections :: "IRange list option"
  getSelectionRanges :: "IRange list option"
  getSheetCommandTarget :: "ISheetCommandTarget option"
  getUniverSheetInstance :: "string \<Rightarrow> (string \<Rightarrow> Worksheet option) option"
  onCommandExecute :: "string \<Rightarrow> IInterceptedMutations"
  SetWorksheetColWidthMutationFactory ::
    "ISetWorksheetColWidthMutationParams \<Rightarrow> ISetWorksheetColWidthMutationParams"
  InsertRowMutationUndoFactory :: "IInsertMutationParams \<Rightarrow> mutation_params"
  InsertColMutationUndoFactory :: "IInsertMutationParams \<Rightarrow> mutation_params"
  followSelectionOperation :: "IRange \<Rightarrow> IMutationInfo"
  mutationResult :: "IMutationInfo \<Rightarrow> (IMutationInfo \<times> bool) list \<Rightarrow> bool"

definition syncExecuteCommand ::
  "sheet_accessor \<Rightarrow> IMutationInfo \<Rightarrow> sheet_state \<Rightarrow> bool \<times> sheet_state" where
  "syncExecuteCommand acc m s =
     (let ok = mutationResult acc m (executed s)
      in (ok, s\<lparr>executed := executed s @ [(m, ok)]\<rparr>))"

text \<open>
  Modelled from the spec: \<open>sequenceExecute\<close> is not among the sources. Section 5: the
  forward mutations are applied in exactly the order they were composed; the result is
  true when each of them returned true, and the run stops at the first that does not.
\<close>

fun sequenceExecute ::
  "sheet_accessor \<Rightarrow> IMutationInfo list \<Rightarrow> sheet_state \<Rightarrow> bool \<times> sheet_state" where
  "sequenceExecute acc [] s = (True, s)"
| "sequenceExecute acc (m # ms) s =
     (case syncExecuteCommand acc m s of
        (ok, s') \<Rightarrow> if ok then sequenceExecute acc ms s' else (False, s'))"



section \<open>DeltaColumnWidthCommand and SetColWidthCommand\<close>

record IDeltaColumnWidthCommandParams =
  anchorCol :: int
  deltaX :: int

definition deltaRangeType :: "IRange list \<Rightarrow> int \<Rightarrow> RANGE_TYPE" where
  "deltaRangeType selections anchor =
     (let isAllSheetRange =
            (length selections = 1 \<and> rangeType (hd selections) = Some ALL_SHEET);
          colSelections = filter (\<lambda>s. rangeType s = Some COLUMN) selections
      in if isAllSheetRange then ALL_SHEET
         else if list_ex (\<lambda>r. startColumn r \<le> anchor \<and> anchor \<le> endColumn r) colSelections
         then COLUMN
         else NORMAL)"

definition deltaRedoMutationParams ::
  "ISheetCommandTarget \<Rightarrow> IRange list \<Rightarrow> IDeltaColumnWidthCommandParams \<Rightarrow>
   ISetWorksheetColWidthMutationParams" where
  "deltaRedoMutationParams target selections params =
     (let worksheet = targetWorksheet target;
          destColumnWidth = getColumnWidth worksheet (anchorCol params) + deltaX params;
          kind = deltaRangeType selections (anchorCol params)
      in if kind = ALL_SHEET then
           \<lparr>colSubUnitId = targetSubUnitId target, colUnitId = targetUnitId target,
            colRanges = map (\<lambda>index. \<lparr>startRow = 0, endRow = getRowCount worksheet - 1,
                                       startColumn = int index, endColumn = int index,
                                       rangeType = None\<rparr>)
                            [0 ..< getColumnCount worksheet],
            colWidth = destColumnWidth\<rparr>
         else if kind = COLUMN then
           \<lparr>colSubUnitId = targetSubUnitId target, colUnitId = targetUnitId target,
            colRanges = filter (\<lambda>s. rangeType s = Some COLUMN) selections,
            colWidth = destColumnWidth\<rparr>
         else
           \<lparr>colSubUnitId = targetSubUnitId target, colUnitId = targetUnitId target,
            colRanges = [\<lparr>startRow = 0, endRow = getMaxRows worksheet - 1,
                          startColumn = anchorCol params, endColumn = anchorCol params,
                          rangeType = None\<rparr>],
            colWidth = destColumnWidth\<rparr>)"

definition colWidthMutation :: "ISetWorksheetColWidthMutationParams \<Rightarrow> IMutationInfo" where
  "colWidthMutation p = \<lparr>mutationId = SetWorksheetColWidthMutation, mutationParams = ColWidthParams p\<rparr>"

text \<open>
  The handler reads \<open>intercepted.preUndos\<close> while it builds the argument of
  \<open>pushUndoRedo\<close>, and no \<open>intercepted\<close> is declared in its scope: the read throws a
  ReferenceError before anything is pushed. Its last statement returns true.
\<close>

definition DeltaColumnWidthCommand ::
  "sheet_accessor \<Rightarrow> IDeltaColumnWidthCommandParams \<Rightarrow> sheet_state \<Rightarrow>
   (js_error + bool) \<times> sheet_state" where
  "DeltaColumnWidthCommand acc params s =
     (case getSheetSelections acc of
        None \<Rightarrow> (Inr False, s)
      | Some selections \<Rightarrow>
          if selections = [] then (Inr False, s)
          else
            (case getSheetCommandTarget acc of
               None \<Rightarrow> (Inr False, s)
             | Some target \<Rightarrow>
                 (let redoMutationParams = deltaRedoMutationParams target selections params;
                      intercepted = onCommandExecute acc ''sheet.command.delta-column-width'';
                      undoMutationParams =
                        SetWorksheetColWidthMutationFactory acc redoMutationParams
                  in (case syncExecuteCommand acc (colWidthMutation redoMutationParams) s of
                        (setColWidthResult, s1) \<Rightarrow>
                          (case sequenceExecute acc (redos intercepted) s1 of
                             (result, s2) \<Rightarrow>
                               if setColWidthResult \<and> result
                               then (Inl ReferenceError, s2)
                               else (Inr True, s2))))))"


section \<open>InsertRowCommand and InsertColCommand\<close>











section \<open>SetSheetImageCommand\<close>








section \<open>Sheet fixtures\<close>

definition noInterception :: IInterceptedMutations where
  "noInterception = \<lparr>undos = [], redos = [], preUndos = None, preRedos = None\<rparr>"

definition sheet1 :: Worksheet where
  "sheet1 =
     \<lparr>getColumnWidth = (\<lambda>c. 72), getRowHeight = (\<lambda>r. 19), getRowCount = 100,
      getColumnCount = 20, getMaxRows = 100\<rparr>"

definition columnB :: IRange where
  "columnB =
     \<lparr>startRow = 0, endRow = 99, startColumn = 1, endColumn = 1, rangeType = Some COLUMN\<rparr>"

text \<open>
  An accessor over one worksheet; \<open>failing\<close> lists the mutations whose handler
  returns false.
\<close>

definition sheetAccessor :: "mutation_id list \<Rightarrow> sheet_accessor" where
  "sheetAccessor failing =
     \<lparr>getSheetSelections = Some [columnB],
      getSelectionRanges = Some [columnB],
      getSheetCommandTarget =
        Some \<lparr>targetWorksheet = sheet1, targetUnitId = ''book'', targetSubUnitId = ''sheet''\<rparr>,
      getUniverSheetInstance = (\<lambda>u. Some (\<lambda>sh. Some sheet1)),
      onCommandExecute = (\<lambda>c. noInterception),
      SetWorksheetColWidthMutationFactory = (\<lambda>p. p\<lparr>colWidth := 72\<rparr>),
      InsertRowMutationUndoFactory = (\<lambda>p. OpaqueParams ''remove-rows''),
      InsertColMutationUndoFactory = (\<lambda>p. OpaqueParams ''remove-cols''),
      followSelectionOperation =
        (\<lambda>r. \<lparr>mutationId = OtherMutation ''set-selections'',
               mutationParams = OpaqueParams ''selection''\<rparr>),
      mutationResult = (\<lambda>m ran. mutationId m \<notin> set failing)\<rparr>"

definition emptySheetState :: sheet_state where
  "emptySheetState = \<lparr>executed = [], undoStack = []\<rparr>"


text \<open>A command ran every mutation of a list, in order, and each returned true.\<close>

definition ranAll :: "IMutationInfo list \<Rightarrow> sheet_state \<Rightarrow> sheet_state \<Rightarrow> bool" where
  "ranAll ms s s' = (executed s' = executed s @ map (\<lambda>m. (m, True)) ms)"

section \<open>The write through the paragraph's own style\<close>

text \<open>
  In its bullet branch \<open>DeleteLeftCommand\<close> assigns the paragraph's own
  \<open>paragraphStyle\<close> object to \<open>updateParagraph.paragraphStyle\<close> and then sets
  \<open>indentStart\<close> and \<open>hanging\<close> on it, so the write lands in the paragraph object that
  \<open>getParagraphByGlyph\<close> returned, before \<open>UpdateCommand\<close> is dispatched.
  \<open>updateParagraphOf\<close> gives the values handed to \<open>UpdateCommand\<close>; this gives the
  paragraph object before and after the handler ran, when the handler wrote to it.
\<close>

definition DeleteLeftCommand_paragraphWrite :: "accessor \<Rightarrow> (IParagraph \<times> IParagraph) option" where
  "DeleteLeftCommand_paragraphWrite acc =
     (case getCurrentUniverDocInstance acc of
        None \<Rightarrow> None
      | Some docDataModel \<Rightarrow>
     (case getActiveRange acc of
        None \<Rightarrow> None
      | Some activeRange \<Rightarrow>
     (case getSkeleton acc of
        None \<Rightarrow> None
      | Some skeleton \<Rightarrow>
     (case getSelections acc of
        None \<Rightarrow> None
      | Some ranges \<Rightarrow>
          (let curGlyph = skeleton (startOffset activeRange)
           in if isUpdateParagraph acc docDataModel skeleton (startOffset activeRange)
                 \<and> collapsed activeRange \<and> hasListGlyph acc curGlyph
              then
                (case getParagraphByGlyph acc curGlyph (getBody docDataModel) of
                   None \<Rightarrow> None
                 | Some paragraph \<Rightarrow>
                     (case paragraphStyle paragraph of
                        None \<Rightarrow> None
                      | Some ps \<Rightarrow>
                          (case hanging ps of
                             None \<Rightarrow> None
                           | Some h \<Rightarrow>
                               if h \<noteq> 0
                               then Some (paragraph,
                                          paragraph\<lparr>paragraphStyle :=
                                            Some (ps\<lparr>indentStart := Some h, hanging := None\<rparr>)\<rparr>)
                               else None)))
              else None)))))"

section \<open>More fixtures\<close>

text \<open>
  The drawing document with a floating drawing, laid out so that the glyph at the
  cursor is the first glyph of a list paragraph.
\<close>

definition listDrawingAccessor :: accessor where
  "listDrawingAccessor =
     (drawingAccessor WRAP_SQUARE)\<lparr>hasListGlyph := (\<lambda>g. True), isFirstGlyph := (\<lambda>g. True)\<rparr>"







section \<open>What a pushing command leaves behind\<close>




section \<open>Sub-body extraction\<close>

lemma substring_length:
  "0 \<le> a \<Longrightarrow> a \<le> b \<Longrightarrow> b \<le> int (length s) \<Longrightarrow> int (length (substring s a b)) = b - a"
  by (auto simp: substring_def Let_def min_def max_def)

lemma getParagraphBody_dataStream:
  "dataStream (getParagraphBody body a b) = substring (dataStream body) a b"
  by (simp add: getParagraphBody_def split: option.split)

text \<open>
  Runs that start inside the slice, or end inside it, are re-based into the slice.
\<close>

lemma getParagraphBody_runs_in_range:
  assumes "list_all (\<lambda>r. st r < ed r \<and> (startIdx \<le> st r \<or> ed r \<le> endIdx)) runs"
    and "r \<in> set (getParagraphBody_runs startIdx endIdx runs)"
  shows "0 \<le> st r \<and> st r < ed r \<and> ed r \<le> endIdx - startIdx"
  using assms
proof (induction runs)
  case Nil
  then show ?case by simp
next
  case (Cons x xs)
  then show ?case
    by (auto split: if_splits)
qed

text \<open>
  C4. The sub-body returned by \<open>getParagraphBody\<close> should keep every run inside
  \<open>[0, endIdx - startIdx]\<close>. A run that starts before the slice and ends after it
  takes the \<open>st < startIdx\<close> branch, which re-bases \<open>ed\<close> without clamping it: for
  \<open>Hello\rWorld\r\<close> with one run over the whole stream, the slice \<open>[6, 11)\<close> is
  \<open>World\<close> (5 code units) but the returned run ends at 6.
\<close>

theorem getParagraphBody_straddling_run:
  "dataStream (getParagraphBody helloWorldBody 6 11) = ''World''
   \<and> textRuns (getParagraphBody helloWorldBody 6 11) = Some [\<lparr>st = 0, ed = 6, ts = ''bold''\<rparr>]
   \<and> (6::int) > 11 - 6"
  by (simp add: getParagraphBody_def helloWorldBody_def helloWorld_def substring_def)

section \<open>Precondition failures\<close>

text \<open>
  C7. A delete or merge command that misses a collaborator it requires returns false at
  once and dispatches nothing: \<open>DeleteCustomBlockCommand\<close> and
  \<open>MergeTwoParagraphCommand\<close> require the active range and the document,
  \<open>DeleteLeftCommand\<close> and \<open>DeleteRightCommand\<close> also the skeleton and the selection
  list. The observable document is then what it was.
\<close>

theorem missing_collaborator_returns_false:
  "(getActiveRange acc = None \<or> getCurrentUniverDocInstance acc = None \<longrightarrow>
      DeleteCustomBlockCommand acc p = Return False
      \<and> MergeTwoParagraphCommand acc q = Return False
      \<and> finish acc (DeleteCustomBlockCommand acc p) = Finished False (snapshotOf acc)
      \<and> finish acc (MergeTwoParagraphCommand acc q) = Finished False (snapshotOf acc))
   \<and> (getActiveRange acc = None \<or> getCurrentUniverDocInstance acc = None
        \<or> getSkeleton acc = None \<or> getSelections acc = None \<longrightarrow>
      DeleteLeftCommand acc = Return False
      \<and> DeleteRightCommand acc = Return False
      \<and> pressBackspace acc = Finished False (snapshotOf acc)
      \<and> pressDelete acc = Finished False (snapshotOf acc))"
proof -
  have block: "DeleteCustomBlockCommand acc p = Return False"
    if "getActiveRange acc = None \<or> getCurrentUniverDocInstance acc = None"
    using that by (auto simp: DeleteCustomBlockCommand_def split: option.splits)
  have merge: "MergeTwoParagraphCommand acc q = Return False"
    if "getActiveRange acc = None \<or> getCurrentUniverDocInstance acc = None"
    using that by (auto simp: MergeTwoParagraphCommand_def split: option.splits)
  have left: "DeleteLeftCommand acc = Return False"
    if "getActiveRange acc = None \<or> getCurrentUniverDocInstance acc = None
        \<or> getSkeleton acc = None \<or> getSelections acc = None"
    using that by (auto simp: DeleteLeftCommand_def split: option.splits)
  have right: "DeleteRightCommand acc = Return False"
    if "getActiveRange acc = None \<or> getCurrentUniverDocInstance acc = None
        \<or> getSkeleton acc = None \<or> getSelections acc = None"
    using that by (auto simp: DeleteRightCommand_def split: option.splits)
  show ?thesis
    using block merge left right
    by (simp add: pressBackspace_def pressDelete_def run_def finish_def)
qed

theorem missing_collaborator_returns_false_witness:
  "getActiveRange (helloWorldAccessor None (Some []) False) = None
   \<and> DeleteCustomBlockCommand (helloWorldAccessor None (Some []) False)
        \<lparr>blockDirection = LEFT, blockRange = collapsedAt 6, blockUnitId = ''doc'',
         blockDrawingId = Some ''d1''\<rparr> = Return False
   \<and> MergeTwoParagraphCommand (helloWorldAccessor None (Some []) False)
        \<lparr>mergeDirection = LEFT, mergeRange = collapsedAt 6\<rparr> = Return False
   \<and> DeleteLeftCommand (helloWorldAccessor None (Some []) False) = Return False
   \<and> DeleteRightCommand (helloWorldAccessor None (Some []) False) = Return False
   \<and> pressBackspace (helloWorldAccessor None (Some []) False)
       = Finished False (snapshotOf (helloWorldAccessor None (Some []) False))"
proof -
  have h: "getActiveRange (helloWorldAccessor None (Some []) False) = None"
    by (simp add: helloWorldAccessor_def plainAccessor_def)
  show ?thesis
    using h missing_collaborator_returns_false
      [of "helloWorldAccessor None (Some []) False"
          "\<lparr>blockDirection = LEFT, blockRange = collapsedAt 6, blockUnitId = ''doc'',
            blockDrawingId = Some ''d1''\<rparr>"
          "\<lparr>mergeDirection = LEFT, mergeRange = collapsedAt 6\<rparr>"]
    by simp
qed

section \<open>Document boundaries\<close>

text \<open>
  C10 as stated fails for a list paragraph.
  BACKSPACE at the first position of a bulleted first paragraph is not a no-op: the
  cursor's glyph is the first glyph of a list paragraph and differs from the (missing)
  previous glyph, so the handler dispatches \<open>UpdateCommand\<close> to strip the bullet.
\<close>

theorem DeleteLeftCommand_first_position_bullet:
  "helloWorldSkeleton (0 - 1) = None
   \<and> collapsed (collapsedAt 0)
   \<and> DeleteLeftCommand (helloWorldAccessor (Some (collapsedAt 0)) (Some []) True)
       = Exec (ExecUpdate
           \<lparr>updateUnitId = ''doc'',
            updateBody = \<lparr>dataStream = [], textRuns = None,
                           paragraphs = Some [\<lparr>startIndex = 0, paragraphStyle = None,
                                               bullet = None\<rparr>]\<rparr>,
            updateRange = (5, 6),
            updateTextRanges =
                [\<lparr>cursorStartOffset = 0,
                  cursorEndOffset = 0,
                  cursorStyle = ''s''\<rparr>],
            coverType = REPLACE,
            updateSegmentId = []\<rparr>)"
  by (simp add: DeleteLeftCommand_def helloWorldAccessor_def plainAccessor_def
      helloWorldDoc_def helloWorldBody_def helloWorld_def textSkeleton_def collapsedAt_def
      helloWorldSkeleton_def isUpdateParagraph_def sameGlyph_def updateParagraphOf_def)

text \<open>
  C10, amended. With a collapsed cursor, \<open>DeleteLeftCommand\<close> returns true without
  dispatching anything when there is no previous glyph and the cursor's glyph is not
  the first glyph of a bulleted or indented paragraph; \<open>DeleteRightCommand\<close> returns
  true without dispatching anything when the cursor stands at
  \<open>dataStream.length - 2\<close>.
\<close>

theorem delete_at_boundary_is_noop:
  assumes "getCurrentUniverDocInstance acc = Some doc"
    and "getActiveRange acc = Some r"
    and "getSkeleton acc = Some sk"
    and "getSelections acc = Some sel"
    and "collapsed r"
  shows "(sk (startOffset r - 1) = None \<and> \<not> isUpdateParagraph acc doc sk (startOffset r) \<longrightarrow>
            DeleteLeftCommand acc = Return True
            \<and> pressBackspace acc = Finished True (snapshotOf acc))
         \<and> (getBody doc = Some body \<and> startOffset r = int (length (dataStream body)) - 2 \<longrightarrow>
            DeleteRightCommand acc = Return True
            \<and> pressDelete acc = Finished True (snapshotOf acc))"
proof -
  have left: "DeleteLeftCommand acc = Return True"
    if "sk (startOffset r - 1) = None" "\<not> isUpdateParagraph acc doc sk (startOffset r)"
    using that assms by (simp add: DeleteLeftCommand_def)
  have right: "DeleteRightCommand acc = Return True"
    if "getBody doc = Some body" "startOffset r = int (length (dataStream body)) - 2"
    using that assms by (simp add: DeleteRightCommand_def)
  show ?thesis
    using left right by (simp add: pressBackspace_def pressDelete_def run_def)
qed

theorem delete_at_boundary_is_noop_witness:
  "DeleteLeftCommand (helloWorldAccessor (Some (collapsedAt 0)) (Some []) False) = Return True
   \<and> pressBackspace (helloWorldAccessor (Some (collapsedAt 0)) (Some []) False)
       = Finished True (snapshotOf (helloWorldAccessor (Some (collapsedAt 0)) (Some []) False))
   \<and> DeleteRightCommand (helloWorldAccessor (Some (collapsedAt 10)) (Some []) False) = Return True
   \<and> pressDelete (helloWorldAccessor (Some (collapsedAt 10)) (Some []) False)
       = Finished True (snapshotOf (helloWorldAccessor (Some (collapsedAt 10)) (Some []) False))"
proof -
  let ?sk = helloWorldSkeleton
  let ?a0 = "helloWorldAccessor (Some (collapsedAt 0)) (Some []) False"
  let ?a10 = "helloWorldAccessor (Some (collapsedAt 10)) (Some []) False"
  have l: "DeleteLeftCommand ?a0 = Return True
           \<and> pressBackspace ?a0 = Finished True (snapshotOf ?a0)"
    using delete_at_boundary_is_noop
      [of ?a0 helloWorldDoc "collapsedAt 0" ?sk "[]" helloWorldBody]
    by (simp add: helloWorldAccessor_def plainAccessor_def collapsedAt_def
        isUpdateParagraph_def textSkeleton_def helloWorldSkeleton_def)
  have r: "DeleteRightCommand ?a10 = Return True
           \<and> pressDelete ?a10 = Finished True (snapshotOf ?a10)"
    using delete_at_boundary_is_noop
      [of ?a10 helloWorldDoc "collapsedAt 10" ?sk "[]" helloWorldBody]
    by (simp add: helloWorldAccessor_def plainAccessor_def collapsedAt_def
        helloWorldDoc_def helloWorldBody_def helloWorld_def)
  show ?thesis using l r by simp
qed

section \<open>Scenario A: merging two paragraphs\<close>

lemma two_paragraphs:
  assumes "map startIndex ps = [a, b]"
  obtains p q where "ps = [p, q]" "startIndex p = a" "startIndex q = b"
  using assms by (cases ps; cases "tl ps") auto

text \<open>
  C2. For the body \<open>Hello\rWorld\r\<close> with paragraph breaks at 5 and 11 and a collapsed
  cursor at 6 in a plain paragraph, BACKSPACE dispatches \<open>MergeTwoParagraphCommand\<close>,
  which builds RETAIN 5, INSERT of the sub-body \<open>World\<close>, RETAIN 1, DELETE 6; the
  resulting body is \<open>HelloWorld\r\<close> and the cursor is collapsed at 5.
\<close>

theorem merge_hello_world:
  assumes "getCurrentUniverDocInstance acc = Some doc"
    and "getBody doc = Some body"
    and "dataStream body = helloWorld"
    and "paragraphs body = Some ps"
    and "map startIndex ps = [5, 11]"
    and "getActiveRange acc = Some r"
    and "startOffset r = 6"
    and "collapsed r"
    and "getSkeleton acc = Some sk"
    and "getSelections acc = Some sel"
    and "sk 5 = Some pre"
    and "content pre = [CR]"
    and "\<not> hasListGlyph acc (sk 6)"
    and "\<not> isIndentByGlyph acc (sk 6) (Some body)"
  shows "DeleteLeftCommand acc
           = Exec (ExecMergeTwoParagraph \<lparr>mergeDirection = LEFT, mergeRange = r\<rparr>)
         \<and> MergeTwoParagraphCommand acc \<lparr>mergeDirection = LEFT, mergeRange = r\<rparr>
           = Exec \<lparr>unitId = getUnitId doc,
                   actions = [EditOp [RETAIN 5 (segmentId r),
                                      INSERT (getParagraphBody body 6 11) 5 (segmentId r),
                                      RETAIN 1 (segmentId r),
                                      DELETE 6 (segmentId r)]],
                   textRanges =
                       [\<lparr>cursorStartOffset = 5,
                         cursorEndOffset = 5,
                         cursorStyle = style r\<rparr>],
                   prevTextRanges = [r]\<rparr>
         \<and> dataStream (getParagraphBody body 6 11) = ''World''
         \<and> pressBackspace acc
           = Finished True ((snapshotOf acc)\<lparr>snapDataStream := ''HelloWorld'' @ [CR],
                                              snapTextRanges :=
                              [\<lparr>cursorStartOffset = 5,
                                cursorEndOffset = 5,
                                cursorStyle = style r\<rparr>]\<rparr>)"
proof -
  obtain p q where ps: "ps = [p, q]" "startIndex p = 5" "startIndex q = 11"
    using two_paragraphs [OF assms(5)] by blast
  have endIdx: "findEndIndex (Some body) 6 = Some 11"
    using assms(4) ps by (simp add: findEndIndex_def)
  have sub: "dataStream (getParagraphBody body 6 11) = ''World''"
    using assms(3)
    by (simp add: getParagraphBody_dataStream substring_def helloWorld_def)
  have left: "DeleteLeftCommand acc
           = Exec (ExecMergeTwoParagraph \<lparr>mergeDirection = LEFT, mergeRange = r\<rparr>)"
    using assms by (simp add: DeleteLeftCommand_def isUpdateParagraph_def)
  have merge: "MergeTwoParagraphCommand acc \<lparr>mergeDirection = LEFT, mergeRange = r\<rparr>
           = Exec \<lparr>unitId = getUnitId doc,
                   actions = [EditOp [RETAIN 5 (segmentId r),
                                      INSERT (getParagraphBody body 6 11) 5 (segmentId r),
                                      RETAIN 1 (segmentId r),
                                      DELETE 6 (segmentId r)]],
                   textRanges =
                       [\<lparr>cursorStartOffset = 5,
                         cursorEndOffset = 5,
                         cursorStyle = style r\<rparr>],
                   prevTextRanges = [r]\<rparr>"
    using assms(1,2,6,7,8) endIdx sub
    by (simp add: MergeTwoParagraphCommand_def editOp_def serialize_def)
  have snap: "snapDataStream (snapshotOf acc) = helloWorld"
    using assms(1,2,3) by (simp add: snapshotOf_def)
  have applied: "applyTextX [RETAIN 5 (segmentId r),
                          INSERT (getParagraphBody body 6 11) 5 (segmentId r),
                          RETAIN 1 (segmentId r),
                          DELETE 6 (segmentId r)] helloWorld = Some (''HelloWorld'' @ [CR])"
    by (simp add: sub helloWorld_def)
  have press: "pressBackspace acc
           = Finished True ((snapshotOf acc)\<lparr>snapDataStream := ''HelloWorld'' @ [CR],
                                              snapTextRanges :=
                              [\<lparr>cursorStartOffset = 5,
                                cursorEndOffset = 5,
                                cursorStyle = style r\<rparr>]\<rparr>)"
    by (simp add: pressBackspace_def run_def left executeCommand_def merge finish_def
        RichTextEditingMutation_def applyJSONXOp_def snap applied del: applyTextX.simps)
  show ?thesis using left merge sub press by blast
qed

theorem merge_hello_world_witness:
  "DeleteLeftCommand (helloWorldAccessor (Some (collapsedAt 6)) (Some []) False)
     = Exec (ExecMergeTwoParagraph \<lparr>mergeDirection = LEFT, mergeRange = collapsedAt 6\<rparr>)
   \<and> MergeTwoParagraphCommand (helloWorldAccessor (Some (collapsedAt 6)) (Some []) False)
        \<lparr>mergeDirection = LEFT, mergeRange = collapsedAt 6\<rparr>
     = Exec \<lparr>unitId = ''doc'',
             actions = [EditOp [RETAIN 5 [],
                                INSERT \<lparr>dataStream = ''World'',
                                        textRuns = Some [\<lparr>st = 0, ed = 6, ts = ''bold''\<rparr>],
                                        paragraphs = None\<rparr> 5 [],
                                RETAIN 1 [],
                                DELETE 6 []]],
             textRanges =
                 [\<lparr>cursorStartOffset = 5,
                   cursorEndOffset = 5,
                   cursorStyle = ''s''\<rparr>],
             prevTextRanges = [collapsedAt 6]\<rparr>
   \<and> pressBackspace (helloWorldAccessor (Some (collapsedAt 6)) (Some []) False)
     = Finished True
         \<lparr>snapDataStream = ''HelloWorld'' @ [CR], snapDrawings = Map.empty,
          snapDrawingsOrder = [], snapTextRanges =
              [\<lparr>cursorStartOffset = 5,
                cursorEndOffset = 5,
                cursorStyle = ''s''\<rparr>]\<rparr>"
proof -
  let ?acc = "helloWorldAccessor (Some (collapsedAt 6)) (Some []) False"
  have sk5: "helloWorldSkeleton 5
      = Some \<lparr>glyphId = 5, content = [CR], streamType = [CR], drawingId = None, count = 1\<rparr>"
    by (simp add: helloWorldSkeleton_def textSkeleton_def helloWorld_def)
  have body: "getParagraphBody helloWorldBody 6 11
      = \<lparr>dataStream = ''World'', textRuns = Some [\<lparr>st = 0, ed = 6, ts = ''bold''\<rparr>],
         paragraphs = None\<rparr>"
    by (simp add: getParagraphBody_def helloWorldBody_def helloWorld_def substring_def)
  have snap: "snapshotOf ?acc
      = \<lparr>snapDataStream = helloWorld, snapDrawings = Map.empty, snapDrawingsOrder = [],
         snapTextRanges =
             [\<lparr>cursorStartOffset = 6,
               cursorEndOffset = 6,
               cursorStyle = ''s''\<rparr>]\<rparr>"
    by (simp add: snapshotOf_def helloWorldAccessor_def plainAccessor_def helloWorldDoc_def
        helloWorldBody_def collapsedAt_def)
  show ?thesis
    using merge_hello_world
      [of ?acc helloWorldDoc helloWorldBody
          "[\<lparr>startIndex = 5, paragraphStyle = None, bullet = None\<rparr>,
            \<lparr>startIndex = 11, paragraphStyle = None, bullet = None\<rparr>]"
          "collapsedAt 6" helloWorldSkeleton "[]"
          "\<lparr>glyphId = 5, content = [CR], streamType = [CR], drawingId = None, count = 1\<rparr>"]
      sk5 body snap
    by (simp add: helloWorldAccessor_def plainAccessor_def helloWorldDoc_def
        helloWorldBody_def collapsedAt_def)
qed

section \<open>Scenario B: deleting an inline object\<close>

lemma indexOf_from_range:
  "x \<in> set xs \<Longrightarrow> i \<le> indexOf_from xs x i \<and> indexOf_from xs x i < i + int (length xs)"
proof (induction xs arbitrary: i)
  case Nil
  then show ?case by simp
next
  case (Cons y ys)
  show ?case
  proof (cases "y = x")
    case True
    then show ?thesis by simp
  next
    case False
    with Cons.prems have "x \<in> set ys" by simp
    from Cons.IH [OF this, of "i + 1"] False show ?thesis by simp
  qed
qed

lemma indexOf_from_nth:
  "x \<in> set xs \<Longrightarrow> xs ! nat (indexOf_from xs x i - i) = x"
proof (induction xs arbitrary: i)
  case Nil
  then show ?case by simp
next
  case (Cons y ys)
  show ?case
  proof (cases "y = x")
    case True
    then show ?thesis by simp
  next
    case False
    with Cons.prems have mem: "x \<in> set ys" by simp
    from indexOf_from_range [OF mem, of "i + 1"]
    have "nat (indexOf_from ys x (i + 1) - i) = Suc (nat (indexOf_from ys x (i + 1) - (i + 1)))"
      by linarith
    with False Cons.IH [OF mem, of "i + 1"] show ?thesis by simp
  qed
qed

lemma removeAt_indexOf_from:
  "x \<in> set xs \<Longrightarrow> removeAt (nat (indexOf_from xs x i - i)) xs = remove1 x xs"
proof (induction xs arbitrary: i)
  case Nil
  then show ?case by simp
next
  case (Cons y ys)
  show ?case
  proof (cases "y = x")
    case True
    then show ?thesis by (simp add: removeAt_def)
  next
    case False
    with Cons.prems have mem: "x \<in> set ys" by simp
    from indexOf_from_range [OF mem, of "i + 1"]
    have "nat (indexOf_from ys x (i + 1) - i) = Suc (nat (indexOf_from ys x (i + 1) - (i + 1)))"
      by linarith
    with False Cons.IH [OF mem, of "i + 1"] show ?thesis
      by (simp add: removeAt_def)
  qed
qed

lemma indexOf_member:
  assumes "x \<in> set xs"
  shows "0 \<le> indexOf xs x" and "indexOf xs x < int (length xs)"
    and "xs ! nat (indexOf xs x) = x"
    and "removeAt (nat (indexOf xs x)) xs = remove1 x xs"
  using indexOf_from_range [OF assms, of 0] indexOf_from_nth [OF assms, of 0]
    removeAt_indexOf_from [OF assms, of 0]
  by (simp_all add: indexOf_def)

text \<open>
  C3. For a body with an inline object sentinel at offset 3 whose drawing \<open>d1\<close> is in
  the drawings table and in the drawing order, BACKSPACE with a collapsed cursor at 4
  dispatches \<open>DeleteCustomBlockCommand\<close>, whose one mutation composes RETAIN 3, DELETE 1
  with the removal of \<open>d1\<close> from the table and from the order. Afterwards one code unit
  is gone, the cursor is collapsed at 3, \<open>d1\<close> is in neither structure, and the order
  lists exactly the keys of the table.
\<close>

theorem delete_inline_object:
  assumes "getCurrentUniverDocInstance acc = Some doc"
    and "getBody doc = Some body"
    and "4 \<le> length (dataStream body)"
    and "dataStream body ! 3 = BS"
    and "getDrawings doc = Some drawingMap"
    and "drawingMap ''d1'' = Some drawing"
    and "layoutType drawing = INLINE"
    and "getDrawingsOrder doc = Some drawingOrder"
    and "''d1'' \<in> set drawingOrder"
    and "distinct drawingOrder"
    and "set drawingOrder = dom drawingMap"
    and "getActiveRange acc = Some r"
    and "startOffset r = 4"
    and "collapsed r"
    and "getSkeleton acc = Some sk"
    and "getSelections acc = Some sel"
    and "sk 3 = Some pre"
    and "content pre \<noteq> [CR]"
    and "streamType pre = [BS]"
    and "drawingId pre = Some ''d1''"
    and "\<not> isUpdateParagraph acc doc sk 4"
  shows "DeleteLeftCommand acc
           = Exec (ExecDeleteCustomBlock
               \<lparr>blockDirection = LEFT, blockRange = r, blockUnitId = getUnitId doc,
                blockDrawingId = Some ''d1''\<rparr>)
         \<and> DeleteCustomBlockCommand acc
             \<lparr>blockDirection = LEFT, blockRange = r, blockUnitId = getUnitId doc,
              blockDrawingId = Some ''d1''\<rparr>
           = Exec \<lparr>unitId = getUnitId doc,
                   actions =
                     [EditOp [RETAIN 3 (segmentId r), DELETE 1 (segmentId r)],
                      RemoveOp [Key ''drawings'', Key ''d1''] (DrawingValue drawing),
                      RemoveOp [Key ''drawingsOrder'', Index (indexOf drawingOrder ''d1'')]
                               (StringValue ''d1'')],
                   textRanges =
                       [\<lparr>cursorStartOffset = 3,
                         cursorEndOffset = 3,
                         cursorStyle = style r\<rparr>],
                   prevTextRanges = [r]\<rparr>
         \<and> pressBackspace acc
           = Finished True
               \<lparr>snapDataStream = take 3 (dataStream body) @ drop 4 (dataStream body),
                snapDrawings = drawingMap(''d1'' := None),
                snapDrawingsOrder = remove1 ''d1'' drawingOrder,
                snapTextRanges =
                    [\<lparr>cursorStartOffset = 3,
                      cursorEndOffset = 3,
                      cursorStyle = style r\<rparr>]\<rparr>
         \<and> length (take 3 (dataStream body) @ drop 4 (dataStream body))
           = length (dataStream body) - 1
         \<and> ''d1'' \<notin> set (remove1 ''d1'' drawingOrder)
         \<and> ''d1'' \<notin> dom (drawingMap(''d1'' := None))
         \<and> set (remove1 ''d1'' drawingOrder) = dom (drawingMap(''d1'' := None))"
proof -
  let ?p = "\<lparr>blockDirection = LEFT, blockRange = r, blockUnitId = getUnitId doc,
              blockDrawingId = Some ''d1''\<rparr>"
  let ?m = "\<lparr>unitId = getUnitId doc,
             actions =
               [EditOp [RETAIN 3 (segmentId r), DELETE 1 (segmentId r)],
                RemoveOp [Key ''drawings'', Key ''d1''] (DrawingValue drawing),
                RemoveOp [Key ''drawingsOrder'', Index (indexOf drawingOrder ''d1'')]
                         (StringValue ''d1'')],
             textRanges =
                 [\<lparr>cursorStartOffset = 3,
                   cursorEndOffset = 3,
                   cursorStyle = style r\<rparr>],
             prevTextRanges = [r]\<rparr>"
  have left: "DeleteLeftCommand acc = Exec (ExecDeleteCustomBlock ?p)"
    using assms by (simp add: DeleteLeftCommand_def snapshotDrawing_def)
  have block: "DeleteCustomBlockCommand acc ?p = Exec ?m"
    using assms(1,5,6,8,12,13)
    by (simp add: DeleteCustomBlockCommand_def editOp_def removeOp_def
        compose_def serialize_def propertyKey_def pathKey_def idValue_def drawingValue_def)
  have snap: "snapshotOf acc
      = \<lparr>snapDataStream = dataStream body, snapDrawings = drawingMap,
         snapDrawingsOrder = drawingOrder,
         snapTextRanges = [\<lparr>cursorStartOffset = startOffset r, cursorEndOffset = endOffset r,
                            cursorStyle = style r\<rparr>]\<rparr>"
    using assms(1,2,5,8,12) by (simp add: snapshotOf_def)
  have edit: "applyTextX [RETAIN 3 (segmentId r), DELETE 1 (segmentId r)] (dataStream body)
      = Some (take 3 (dataStream body) @ drop 4 (dataStream body))"
    using assms(3) by simp
  note idx = indexOf_member [OF assms(9)]
  have applied: "applyJSONX (actions ?m) (snapshotOf acc)
      = Some \<lparr>snapDataStream = take 3 (dataStream body) @ drop 4 (dataStream body),
               snapDrawings = drawingMap(''d1'' := None),
               snapDrawingsOrder = remove1 ''d1'' drawingOrder,
               snapTextRanges = [\<lparr>cursorStartOffset = startOffset r,
                                  cursorEndOffset = endOffset r, cursorStyle = style r\<rparr>]\<rparr>"
    using edit idx assms(6)
    by (simp add: snap applyJSONXOp_def drawingValue_def del: applyTextX.simps)
  have press: "pressBackspace acc
           = Finished True
               \<lparr>snapDataStream = take 3 (dataStream body) @ drop 4 (dataStream body),
                snapDrawings = drawingMap(''d1'' := None),
                snapDrawingsOrder = remove1 ''d1'' drawingOrder,
                snapTextRanges =
                    [\<lparr>cursorStartOffset = 3,
                      cursorEndOffset = 3,
                      cursorStyle = style r\<rparr>]\<rparr>"
    using applied
    by (simp add: pressBackspace_def run_def left executeCommand_def block finish_def
        RichTextEditingMutation_def del: applyJSONX.simps)
  have len: "length (take 3 (dataStream body) @ drop 4 (dataStream body))
           = length (dataStream body) - 1"
    using assms(3) by simp
  have gone: "''d1'' \<notin> set (remove1 ''d1'' drawingOrder)"
    using assms(10) by simp
  have same: "set (remove1 ''d1'' drawingOrder) = dom (drawingMap(''d1'' := None))"
    using assms(10,11) by auto
  show ?thesis using left block press len gone same by simp
qed

theorem delete_inline_object_witness:
  "DeleteLeftCommand (drawingAccessor INLINE)
     = Exec (ExecDeleteCustomBlock
         \<lparr>blockDirection = LEFT, blockRange = collapsedAt 4, blockUnitId = ''doc'',
          blockDrawingId = Some ''d1''\<rparr>)
   \<and> DeleteCustomBlockCommand (drawingAccessor INLINE)
        \<lparr>blockDirection = LEFT, blockRange = collapsedAt 4, blockUnitId = ''doc'',
         blockDrawingId = Some ''d1''\<rparr>
     = Exec \<lparr>unitId = ''doc'',
             actions =
               [EditOp [RETAIN 3 [], DELETE 1 []],
                RemoveOp [Key ''drawings'', Key ''d1'']
                         (DrawingValue \<lparr>drawingKey = ''d1'', layoutType = INLINE\<rparr>),
                RemoveOp [Key ''drawingsOrder'', Index 0] (StringValue ''d1'')],
             textRanges =
                 [\<lparr>cursorStartOffset = 3,
                   cursorEndOffset = 3,
                   cursorStyle = ''s''\<rparr>],
             prevTextRanges = [collapsedAt 4]\<rparr>
   \<and> pressBackspace (drawingAccessor INLINE)
     = Finished True
         \<lparr>snapDataStream = ''abcdef'' @ [CR], snapDrawings = Map.empty,
          snapDrawingsOrder = [], snapTextRanges =
              [\<lparr>cursorStartOffset = 3,
                cursorEndOffset = 3,
                cursorStyle = ''s''\<rparr>]\<rparr>"
proof -
  have sk3: "drawingSkeleton 3 =
      Some \<lparr>glyphId = 3, content = [BS], streamType = [BS], drawingId = Some ''d1'', count = 1\<rparr>"
    by (simp add: drawingSkeleton_def textSkeleton_def drawingStream_def)
  have notUpdate: "\<not> isUpdateParagraph (drawingAccessor INLINE) (drawingDoc INLINE)
                      drawingSkeleton 4"
    by (simp add: isUpdateParagraph_def drawingAccessor_def plainAccessor_def)
  have idx: "indexOf [''d1''] ''d1'' = 0"
    by (simp add: indexOf_def)
  show ?thesis
    using delete_inline_object
      [of "drawingAccessor INLINE" "drawingDoc INLINE"
          "\<lparr>dataStream = drawingStream, textRuns = None,
            paragraphs = Some [\<lparr>startIndex = 7, paragraphStyle = None, bullet = None\<rparr>]\<rparr>"
          "[''d1'' \<mapsto> \<lparr>drawingKey = ''d1'', layoutType = INLINE\<rparr>]"
          "\<lparr>drawingKey = ''d1'', layoutType = INLINE\<rparr>"
          "[''d1'']" "collapsedAt 4" drawingSkeleton "[]"
          "\<lparr>glyphId = 3, content = [BS], streamType = [BS], drawingId = Some ''d1'', count = 1\<rparr>"]
      sk3 notUpdate idx
    by (simp add: drawingAccessor_def plainAccessor_def collapsedAt_def CR_def BS_def
        drawingDoc_def drawingStream_def)
qed

section \<open>Floating objects\<close>

text \<open>
  C8 as stated fails in two places. With the cursor at the first glyph of a list
  paragraph, BACKSPACE behind the sentinel of a floating drawing dispatches
  \<open>UpdateCommand\<close>, not a text deletion: the paragraph update is tested first. And in a
  plain paragraph the \<open>DeleteCommand\<close> it dispatches is not over the sentinel: for
  \<open>abc\bdef\r\<close> with the cursor at 4 it removes the \<open>c\<close> before the sentinel, and the
  sentinel stays.
\<close>

theorem floating_object_backspace_in_list_paragraph:
  "collapsed (collapsedAt 4)
   \<and> drawingSkeleton (4 - 1)
     = Some \<lparr>glyphId = 3, content = [BS], streamType = [BS], drawingId = Some ''d1'', count = 1\<rparr>
   \<and> snapshotDrawing (drawingDoc WRAP_SQUARE) (Some ''d1'')
     = Some \<lparr>drawingKey = ''d1'', layoutType = WRAP_SQUARE\<rparr>
   \<and> DeleteLeftCommand listDrawingAccessor
     = Exec (ExecUpdate
         \<lparr>updateUnitId = ''doc'',
          updateBody = \<lparr>dataStream = [], textRuns = None,
                         paragraphs = Some [\<lparr>startIndex = 0, paragraphStyle = None,
                                             bullet = None\<rparr>]\<rparr>,
          updateRange = (7, 8),
          updateTextRanges =
            [\<lparr>cursorStartOffset = 4, cursorEndOffset = 4, cursorStyle = ''s''\<rparr>],
          coverType = REPLACE,
          updateSegmentId = []\<rparr>)
   \<and> pressBackspace (drawingAccessor WRAP_SQUARE)
     = Finished True
         ((snapshotOf (drawingAccessor WRAP_SQUARE))
            \<lparr>snapDataStream := ''ab'' @ [BS] @ ''def'' @ [CR],
             snapTextRanges :=
               [\<lparr>cursorStartOffset = 2, cursorEndOffset = 2, cursorStyle = ''s''\<rparr>]\<rparr>)"
proof -
  have sk3: "drawingSkeleton (4 - 1)
     = Some \<lparr>glyphId = 3, content = [BS], streamType = [BS], drawingId = Some ''d1'', count = 1\<rparr>"
    by (simp add: drawingSkeleton_def textSkeleton_def drawingStream_def)
  have dr: "snapshotDrawing (drawingDoc WRAP_SQUARE) (Some ''d1'')
     = Some \<lparr>drawingKey = ''d1'', layoutType = WRAP_SQUARE\<rparr>"
    by (simp add: snapshotDrawing_def drawingDoc_def)
  have upd: "DeleteLeftCommand listDrawingAccessor
     = Exec (ExecUpdate
         \<lparr>updateUnitId = ''doc'',
          updateBody = \<lparr>dataStream = [], textRuns = None,
                         paragraphs = Some [\<lparr>startIndex = 0, paragraphStyle = None,
                                             bullet = None\<rparr>]\<rparr>,
          updateRange = (7, 8),
          updateTextRanges =
            [\<lparr>cursorStartOffset = 4, cursorEndOffset = 4, cursorStyle = ''s''\<rparr>],
          coverType = REPLACE,
          updateSegmentId = []\<rparr>)"
    by (simp add: DeleteLeftCommand_def listDrawingAccessor_def drawingAccessor_def
        plainAccessor_def drawingDoc_def drawingSkeleton_def textSkeleton_def
        drawingStream_def collapsedAt_def isUpdateParagraph_def sameGlyph_def
        updateParagraphOf_def)
  have left: "DeleteLeftCommand (drawingAccessor WRAP_SQUARE)
     = Exec (ExecDelete
         \<lparr>deleteUnitId = ''doc'',
          deleteRange = \<lparr>startOffset = 3, endOffset = 3, collapsed = True, segmentId = [],
                         style = ''s''\<rparr>,
          deleteSegmentId = [],
          deleteDirection = LEFT,
          deleteLen = 1,
          deleteTextRanges =
            [\<lparr>cursorStartOffset = 2, cursorEndOffset = 2, cursorStyle = ''s''\<rparr>]\<rparr>)"
    by (simp add: DeleteLeftCommand_def drawingAccessor_def plainAccessor_def drawingDoc_def
        drawingSkeleton_def textSkeleton_def drawingStream_def collapsedAt_def
        isUpdateParagraph_def snapshotDrawing_def CR_def BS_def)
  have snap: "snapDataStream (snapshotOf (drawingAccessor WRAP_SQUARE)) = drawingStream"
    by (simp add: snapshotOf_def drawingAccessor_def plainAccessor_def drawingDoc_def)
  have press: "pressBackspace (drawingAccessor WRAP_SQUARE)
     = Finished True
         ((snapshotOf (drawingAccessor WRAP_SQUARE))
            \<lparr>snapDataStream := ''ab'' @ [BS] @ ''def'' @ [CR],
             snapTextRanges :=
               [\<lparr>cursorStartOffset = 2, cursorEndOffset = 2, cursorStyle = ''s''\<rparr>]\<rparr>)"
    by (simp add: pressBackspace_def run_def left executeCommand_def finish_def
        DeleteCommand_def editOp_def serialize_def RichTextEditingMutation_def
        applyJSONXOp_def snap drawingStream_def)
  show ?thesis
    using sk3 dr upd press by (simp add: collapsedAt_def)
qed

lemma RichTextEditingMutation_EditOp_drawings:
  assumes "actions m = [EditOp acts]"
    and "RichTextEditingMutation m s = (b, s')"
  shows "snapDrawings s' = snapDrawings s \<and> snapDrawingsOrder s' = snapDrawingsOrder s"
  using assms
  by (auto simp: RichTextEditingMutation_def applyJSONXOp_def split: option.splits)

lemma finish_DeleteCommand_drawings:
  "\<exists>b s. finish acc (DeleteCommand p) = Finished b s
          \<and> snapDrawings s = snapDrawings (snapshotOf acc)
          \<and> snapDrawingsOrder s = snapDrawingsOrder (snapshotOf acc)"
proof -
  obtain m where m: "DeleteCommand p = Exec m" "\<exists>acts. actions m = [EditOp acts]"
    by (simp add: DeleteCommand_def Let_def editOp_def)
  obtain b s where bs: "RichTextEditingMutation m (snapshotOf acc) = (b, s)"
    by (cases "RichTextEditingMutation m (snapshotOf acc)")
  from m(2) bs have "snapDrawings s = snapDrawings (snapshotOf acc)
      \<and> snapDrawingsOrder s = snapDrawingsOrder (snapshotOf acc)"
    using RichTextEditingMutation_EditOp_drawings by blast
  then show ?thesis
    using m(1) bs by (simp add: finish_def)
qed

lemma delete_before:
  assumes "1 \<le> len" and "len \<le> pos" and "pos \<le> int (length ds)"
  shows "applyTextX [RETAIN (pos - len) seg, DELETE len seg] ds
           = Some (take (nat (pos - len)) ds @ drop (nat pos) ds)"
proof -
  have "nat len + nat (pos - len) = nat pos"
    using assms by linarith
  then show ?thesis
    using assms by simp
qed

text \<open>
  C8, amended. BACKSPACE with a collapsed cursor whose previous glyph is the sentinel
  of a floating (non-inline) drawing (and not a paragraph break), the cursor's glyph
  not being the first glyph of a bulleted or indented paragraph, performs at most a
  text deletion: it dispatches a \<open>DeleteCommand\<close> for the glyph before the sentinel
  (nothing when there is none) and never \<open>DeleteCustomBlockCommand\<close>. The drawings table
  and the drawing order are what they were. Where the glyph before the sentinel spans
  code units of the stream, exactly those are removed, the sentinel stays, and the
  cursor is collapsed in front of the removed glyph.
\<close>

theorem floating_object_backspace_keeps_drawings:
  assumes "getCurrentUniverDocInstance acc = Some doc"
    and "getActiveRange acc = Some r"
    and "getSkeleton acc = Some sk"
    and "getSelections acc = Some sel"
    and "collapsed r"
    and "\<not> isUpdateParagraph acc doc sk (startOffset r)"
    and "sk (startOffset r - 1) = Some pre"
    and "content pre \<noteq> [CR]"
    and "streamType pre = [BS]"
    and "snapshotDrawing doc (drawingId pre) = Some drawing"
    and "layoutType drawing \<noteq> INLINE"
  shows "DeleteLeftCommand acc =
           (case sk (startOffset r - 2) of
              None \<Rightarrow> Return True
            | Some prePre \<Rightarrow>
                Exec (ExecDelete
                  \<lparr>deleteUnitId = getUnitId doc,
                   deleteRange = r\<lparr>startOffset := startOffset r - 1,
                                    endOffset := endOffset r - 1\<rparr>,
                   deleteSegmentId = segmentId r,
                   deleteDirection = LEFT,
                   deleteLen = count prePre,
                   deleteTextRanges =
                     [\<lparr>cursorStartOffset = startOffset r - count pre - count prePre,
                       cursorEndOffset = startOffset r - count pre - count prePre,
                       cursorStyle = style r\<rparr>]\<rparr>))
         \<and> (\<forall>p. DeleteLeftCommand acc \<noteq> Exec (ExecDeleteCustomBlock p))
         \<and> (\<exists>b s. pressBackspace acc = Finished b s
                \<and> snapDrawings s = snapDrawings (snapshotOf acc)
                \<and> snapDrawingsOrder s = snapDrawingsOrder (snapshotOf acc))
         \<and> (sk (startOffset r - 2) = None \<longrightarrow>
              pressBackspace acc = Finished True (snapshotOf acc))
         \<and> (sk (startOffset r - 2) = Some prePre \<and> getBody doc = Some body
              \<and> 1 \<le> count prePre \<and> count prePre \<le> startOffset r - 1
              \<and> startOffset r - 1 \<le> int (length (dataStream body)) \<longrightarrow>
              pressBackspace acc
                = Finished True
                    ((snapshotOf acc)
                       \<lparr>snapDataStream :=
                          take (nat (startOffset r - 1 - count prePre)) (dataStream body)
                            @ drop (nat (startOffset r - 1)) (dataStream body),
                        snapTextRanges :=
                          [\<lparr>cursorStartOffset = startOffset r - count pre - count prePre,
                            cursorEndOffset = startOffset r - count pre - count prePre,
                            cursorStyle = style r\<rparr>]\<rparr>))"
proof -
  have eq: "DeleteLeftCommand acc =
           (case sk (startOffset r - 2) of
              None \<Rightarrow> Return True
            | Some prePre \<Rightarrow>
                Exec (ExecDelete
                  \<lparr>deleteUnitId = getUnitId doc,
                   deleteRange = r\<lparr>startOffset := startOffset r - 1,
                                    endOffset := endOffset r - 1\<rparr>,
                   deleteSegmentId = segmentId r,
                   deleteDirection = LEFT,
                   deleteLen = count prePre,
                   deleteTextRanges =
                     [\<lparr>cursorStartOffset = startOffset r - count pre - count prePre,
                       cursorEndOffset = startOffset r - count pre - count prePre,
                       cursorStyle = style r\<rparr>]\<rparr>))"
    using assms by (simp add: DeleteLeftCommand_def)
  have no_block: "\<forall>p. DeleteLeftCommand acc \<noteq> Exec (ExecDeleteCustomBlock p)"
    by (simp add: eq split: option.split)
  have nop: "pressBackspace acc = Finished True (snapshotOf acc)"
    if "sk (startOffset r - 2) = None"
    using that by (simp add: pressBackspace_def run_def eq)
  have frame: "\<exists>b s. pressBackspace acc = Finished b s
                \<and> snapDrawings s = snapDrawings (snapshotOf acc)
                \<and> snapDrawingsOrder s = snapDrawingsOrder (snapshotOf acc)"
  proof (cases "sk (startOffset r - 2)")
    case None
    have "pressBackspace acc = Finished True (snapshotOf acc)"
      using None by (rule nop)
    then show ?thesis by blast
  next
    case (Some prePre)
    then show ?thesis
      using finish_DeleteCommand_drawings
      by (simp add: pressBackspace_def run_def eq executeCommand_def)
  qed
  have removed: "pressBackspace acc
                = Finished True
                    ((snapshotOf acc)
                       \<lparr>snapDataStream :=
                          take (nat (startOffset r - 1 - count prePre)) (dataStream body)
                            @ drop (nat (startOffset r - 1)) (dataStream body),
                        snapTextRanges :=
                          [\<lparr>cursorStartOffset = startOffset r - count pre - count prePre,
                            cursorEndOffset = startOffset r - count pre - count prePre,
                            cursorStyle = style r\<rparr>]\<rparr>)"
    if pp: "sk (startOffset r - 2) = Some prePre" and b: "getBody doc = Some body"
      and len: "1 \<le> count prePre" "count prePre \<le> startOffset r - 1"
        "startOffset r - 1 \<le> int (length (dataStream body))"
  proof -
    have snap: "snapDataStream (snapshotOf acc) = dataStream body"
      using assms(1) b by (simp add: snapshotOf_def)
    have pos: "0 < startOffset r - 1"
      using len by linarith
    have cmd: "DeleteCommand
        \<lparr>deleteUnitId = getUnitId doc,
         deleteRange = r\<lparr>startOffset := startOffset r - 1, endOffset := endOffset r - 1\<rparr>,
         deleteSegmentId = segmentId r,
         deleteDirection = LEFT,
         deleteLen = count prePre,
         deleteTextRanges =
           [\<lparr>cursorStartOffset = startOffset r - count pre - count prePre,
             cursorEndOffset = startOffset r - count pre - count prePre,
             cursorStyle = style r\<rparr>]\<rparr>
      = Exec \<lparr>unitId = getUnitId doc,
              actions = [EditOp [RETAIN (startOffset r - 1 - count prePre) (segmentId r),
                                 DELETE (count prePre) (segmentId r)]],
              textRanges =
                [\<lparr>cursorStartOffset = startOffset r - count pre - count prePre,
                  cursorEndOffset = startOffset r - count pre - count prePre,
                  cursorStyle = style r\<rparr>],
              prevTextRanges =
                [r\<lparr>startOffset := startOffset r - 1, endOffset := endOffset r - 1\<rparr>]\<rparr>"
      using pos by (simp add: DeleteCommand_def editOp_def serialize_def Let_def)
    show ?thesis
      using delete_before [OF len, of "segmentId r"]
      by (simp add: pressBackspace_def run_def eq pp executeCommand_def cmd finish_def
          RichTextEditingMutation_def applyJSONXOp_def snap del: applyTextX.simps)
  qed
  show ?thesis using eq no_block frame nop removed by blast
qed

theorem floating_object_backspace_keeps_drawings_witness:
  "DeleteLeftCommand (drawingAccessor WRAP_SQUARE) =
     Exec (ExecDelete
       \<lparr>deleteUnitId = ''doc'',
        deleteRange = \<lparr>startOffset = 3, endOffset = 3, collapsed = True, segmentId = [],
                       style = ''s''\<rparr>,
        deleteSegmentId = [],
        deleteDirection = LEFT,
        deleteLen = 1,
        deleteTextRanges =
          [\<lparr>cursorStartOffset = 2, cursorEndOffset = 2, cursorStyle = ''s''\<rparr>]\<rparr>)
   \<and> pressBackspace (drawingAccessor WRAP_SQUARE)
     = Finished True
         \<lparr>snapDataStream = ''ab'' @ [BS] @ ''def'' @ [CR],
          snapDrawings = [''d1'' \<mapsto> \<lparr>drawingKey = ''d1'', layoutType = WRAP_SQUARE\<rparr>],
          snapDrawingsOrder = [''d1''],
          snapTextRanges =
            [\<lparr>cursorStartOffset = 2, cursorEndOffset = 2, cursorStyle = ''s''\<rparr>]\<rparr>"
proof -
  let ?body = "\<lparr>dataStream = drawingStream, textRuns = None,
                paragraphs = Some [\<lparr>startIndex = 7, paragraphStyle = None, bullet = None\<rparr>]\<rparr>"
  have sk3: "drawingSkeleton (startOffset (collapsedAt 4) - 1) =
      Some \<lparr>glyphId = 3, content = [BS], streamType = [BS], drawingId = Some ''d1'', count = 1\<rparr>"
    by (simp add: drawingSkeleton_def textSkeleton_def drawingStream_def collapsedAt_def)
  have sk2: "drawingSkeleton (startOffset (collapsedAt 4) - 2) =
      Some \<lparr>glyphId = 2, content = ''c'', streamType = ''c'', drawingId = None, count = 1\<rparr>"
    by (simp add: drawingSkeleton_def textSkeleton_def drawingStream_def collapsedAt_def)
  have notUpdate: "\<not> isUpdateParagraph (drawingAccessor WRAP_SQUARE) (drawingDoc WRAP_SQUARE)
                      drawingSkeleton (startOffset (collapsedAt 4))"
    by (simp add: isUpdateParagraph_def drawingAccessor_def plainAccessor_def)
  have dr: "snapshotDrawing (drawingDoc WRAP_SQUARE) (Some ''d1'')
              = Some \<lparr>drawingKey = ''d1'', layoutType = WRAP_SQUARE\<rparr>"
    by (simp add: snapshotDrawing_def drawingDoc_def)
  have snap: "snapshotOf (drawingAccessor WRAP_SQUARE)
      = \<lparr>snapDataStream = drawingStream,
         snapDrawings = [''d1'' \<mapsto> \<lparr>drawingKey = ''d1'', layoutType = WRAP_SQUARE\<rparr>],
         snapDrawingsOrder = [''d1''],
         snapTextRanges = [\<lparr>cursorStartOffset = 4, cursorEndOffset = 4, cursorStyle = ''s''\<rparr>]\<rparr>"
    by (simp add: snapshotOf_def drawingAccessor_def plainAccessor_def drawingDoc_def
        collapsedAt_def)
  show ?thesis
    using floating_object_backspace_keeps_drawings
      [of "drawingAccessor WRAP_SQUARE" "drawingDoc WRAP_SQUARE" "collapsedAt 4"
          drawingSkeleton "[]"
          "\<lparr>glyphId = 3, content = [BS], streamType = [BS], drawingId = Some ''d1'', count = 1\<rparr>"
          "\<lparr>drawingKey = ''d1'', layoutType = WRAP_SQUARE\<rparr>"
          "\<lparr>glyphId = 2, content = ''c'', streamType = ''c'', drawingId = None, count = 1\<rparr>"
          ?body]
      sk3 sk2 notUpdate dr snap
    by (simp add: drawingAccessor_def plainAccessor_def collapsedAt_def CR_def BS_def
        drawingDoc_def drawingStream_def)
qed

section \<open>Scenario C: a non-collapsed selection\<close>

lemma getTextRangesWhenDelete_cursor_eq:
  "getTextRangesWhenDelete_cursor r rs c = c - selectedLengthUpTo (endOffset r) rs"
  by (induction rs arbitrary: c)
     (auto simp: selectedLengthUpTo_def rangeLength_def endsAtOrBefore_def split: option.splits)

lemma getTextRangesWhenDelete_eq:
  "getTextRangesWhenDelete r rs
     = [\<lparr>cursorStartOffset = endOffset r - selectedLengthUpTo (endOffset r) rs,
         cursorEndOffset = endOffset r - selectedLengthUpTo (endOffset r) rs,
         cursorStyle = style r\<rparr>]"
  by (simp add: getTextRangesWhenDelete_def getTextRangesWhenDelete_cursor_eq Let_def)

lemma covered_single:
  "covered i [\<lparr>rangeStartOffset = Some a, rangeEndOffset = Some b\<rparr>] = (a \<le> i \<and> i < b)"
  by (simp add: covered_def)

lemma removeCovered_single:
  "a \<le> b \<Longrightarrow>
   removeCovered i cs [\<lparr>rangeStartOffset = Some a, rangeEndOffset = Some b\<rparr>]
     = take (nat (a - i)) cs @ drop (nat (b - i)) cs"
proof (induction cs arbitrary: i)
  case Nil
  then show ?case by simp
next
  case (Cons c cs)
  consider "i < a" | "a \<le> i" "i < b" | "b \<le> i" by linarith
  then show ?case
  proof cases
    case 1
    then have "nat (a - i) = Suc (nat (a - (i + 1)))" "nat (b - i) = Suc (nat (b - (i + 1)))"
      using Cons.prems by linarith+
    with 1 Cons.IH [OF Cons.prems, of "i + 1"] show ?thesis
      by (simp add: covered_single)
  next
    case 2
    then have "nat (a - i) = 0" "nat (a - (i + 1)) = 0" "nat (b - i) = Suc (nat (b - (i + 1)))"
      by linarith+
    with 2 Cons.IH [OF Cons.prems, of "i + 1"] show ?thesis
      by (simp add: covered_single)
  next
    case 3
    then have "nat (a - i) = 0" "nat (a - (i + 1)) = 0" "nat (b - i) = 0" "nat (b - (i + 1)) = 0"
      using Cons.prems by linarith+
    with 3 Cons.IH [OF Cons.prems, of "i + 1"] show ?thesis
      by (simp add: covered_single)
  qed
qed

text \<open>
  C9. With a non-collapsed selection, BACKSPACE and DELETE hand over to
  \<open>CutContentCommand\<close>; the one range they pass is collapsed at the active range's end
  offset minus the total length of the selected ranges that end at or before it. For
  the one selection \<open>[2, 5)\<close> that range is collapsed at 2, the cut removes three code
  units, and the selection afterwards is that range.
\<close>

theorem non_collapsed_delete_cuts:
  assumes "getCurrentUniverDocInstance acc = Some doc"
    and "getActiveRange acc = Some r"
    and "getSkeleton acc = Some sk"
    and "getSelections acc = Some sel"
    and "\<not> collapsed r"
  shows "DeleteLeftCommand acc
           = Exec (ExecCutContent (segmentId r)
               [\<lparr>cursorStartOffset = endOffset r - selectedLengthUpTo (endOffset r) sel,
                 cursorEndOffset = endOffset r - selectedLengthUpTo (endOffset r) sel,
                 cursorStyle = style r\<rparr>])
         \<and> (getBody doc \<noteq> None \<longrightarrow>
            DeleteRightCommand acc
              = Exec (ExecCutContent (segmentId r)
                  [\<lparr>cursorStartOffset = endOffset r - selectedLengthUpTo (endOffset r) sel,
                    cursorEndOffset = endOffset r - selectedLengthUpTo (endOffset r) sel,
                    cursorStyle = style r\<rparr>]))
         \<and> (getBody doc = Some body \<and> 5 \<le> length (dataStream body)
              \<and> startOffset r = 2 \<and> endOffset r = 5
              \<and> sel = [\<lparr>rangeStartOffset = Some 2, rangeEndOffset = Some 5\<rparr>] \<longrightarrow>
            DeleteLeftCommand acc
              = Exec (ExecCutContent (segmentId r)
                  [\<lparr>cursorStartOffset = 2, cursorEndOffset = 2, cursorStyle = style r\<rparr>])
            \<and> DeleteRightCommand acc
              = Exec (ExecCutContent (segmentId r)
                  [\<lparr>cursorStartOffset = 2, cursorEndOffset = 2, cursorStyle = style r\<rparr>])
            \<and> pressBackspace acc
              = Finished True
                  ((snapshotOf acc)
                     \<lparr>snapDataStream := take 2 (dataStream body) @ drop 5 (dataStream body),
                      snapTextRanges :=
                        [\<lparr>cursorStartOffset = 2, cursorEndOffset = 2,
                          cursorStyle = style r\<rparr>]\<rparr>)
            \<and> pressDelete acc = pressBackspace acc
            \<and> int (length (take 2 (dataStream body) @ drop 5 (dataStream body)))
                = int (length (dataStream body)) - 3)"
proof -
  let ?cut = "Exec (ExecCutContent (segmentId r)
               [\<lparr>cursorStartOffset = endOffset r - selectedLengthUpTo (endOffset r) sel,
                 cursorEndOffset = endOffset r - selectedLengthUpTo (endOffset r) sel,
                 cursorStyle = style r\<rparr>])"
  have left: "DeleteLeftCommand acc = ?cut"
    using assms by (simp add: DeleteLeftCommand_def getTextRangesWhenDelete_eq)
  have right: "DeleteRightCommand acc = ?cut" if "getBody doc \<noteq> None"
    using assms that by (auto simp: DeleteRightCommand_def getTextRangesWhenDelete_eq)
  have scenario: "DeleteLeftCommand acc
              = Exec (ExecCutContent (segmentId r)
                  [\<lparr>cursorStartOffset = 2, cursorEndOffset = 2, cursorStyle = style r\<rparr>])
            \<and> DeleteRightCommand acc
              = Exec (ExecCutContent (segmentId r)
                  [\<lparr>cursorStartOffset = 2, cursorEndOffset = 2, cursorStyle = style r\<rparr>])
            \<and> pressBackspace acc
              = Finished True
                  ((snapshotOf acc)
                     \<lparr>snapDataStream := take 2 (dataStream body) @ drop 5 (dataStream body),
                      snapTextRanges :=
                        [\<lparr>cursorStartOffset = 2, cursorEndOffset = 2,
                          cursorStyle = style r\<rparr>]\<rparr>)
            \<and> pressDelete acc = pressBackspace acc
            \<and> int (length (take 2 (dataStream body) @ drop 5 (dataStream body)))
                = int (length (dataStream body)) - 3"
    if b: "getBody doc = Some body" and len: "5 \<le> length (dataStream body)"
      and so: "startOffset r = 2" and eo: "endOffset r = 5"
      and s: "sel = [\<lparr>rangeStartOffset = Some 2, rangeEndOffset = Some 5\<rparr>]"
  proof -
    have cursor: "endOffset r - selectedLengthUpTo (endOffset r) sel = 2"
      by (simp add: eo s selectedLengthUpTo_def rangeLength_def endsAtOrBefore_def)
    have left2: "DeleteLeftCommand acc
              = Exec (ExecCutContent (segmentId r)
                  [\<lparr>cursorStartOffset = 2, cursorEndOffset = 2, cursorStyle = style r\<rparr>])"
      using left by (simp add: cursor)
    have right2: "DeleteRightCommand acc
              = Exec (ExecCutContent (segmentId r)
                  [\<lparr>cursorStartOffset = 2, cursorEndOffset = 2, cursorStyle = style r\<rparr>])"
      using right b by (simp add: cursor)
    have snap: "snapDataStream (snapshotOf acc) = dataStream body"
      using assms(1) b by (simp add: snapshotOf_def)
    have removed: "removeCovered 0 (dataStream body) sel
        = take 2 (dataStream body) @ drop 5 (dataStream body)"
      using removeCovered_single [of 2 5 0 "dataStream body"] by (simp add: s)
    have viaBackspace: "pressBackspace acc
              = Finished True
                  ((snapshotOf acc)
                     \<lparr>snapDataStream := take 2 (dataStream body) @ drop 5 (dataStream body),
                      snapTextRanges :=
                        [\<lparr>cursorStartOffset = 2, cursorEndOffset = 2,
                          cursorStyle = style r\<rparr>]\<rparr>)"
      using assms(4) snap removed
      by (simp add: pressBackspace_def run_def left2 executeCommand_def CutContentCommand_def)
    have viaDelete: "pressDelete acc = pressBackspace acc"
      by (simp add: pressDelete_def pressBackspace_def left2 right2)
    show ?thesis using left2 right2 viaBackspace viaDelete len by simp
  qed
  show ?thesis using left right scenario by blast
qed

theorem non_collapsed_delete_cuts_witness:
  "DeleteLeftCommand
     (helloWorldAccessor (Some selection25)
        (Some [\<lparr>rangeStartOffset = Some 2, rangeEndOffset = Some 5\<rparr>]) False)
     = Exec (ExecCutContent []
         [\<lparr>cursorStartOffset = 2, cursorEndOffset = 2, cursorStyle = ''s''\<rparr>])
   \<and> DeleteRightCommand
     (helloWorldAccessor (Some selection25)
        (Some [\<lparr>rangeStartOffset = Some 2, rangeEndOffset = Some 5\<rparr>]) False)
     = Exec (ExecCutContent []
         [\<lparr>cursorStartOffset = 2, cursorEndOffset = 2, cursorStyle = ''s''\<rparr>])
   \<and> pressBackspace
     (helloWorldAccessor (Some selection25)
        (Some [\<lparr>rangeStartOffset = Some 2, rangeEndOffset = Some 5\<rparr>]) False)
     = Finished True
         \<lparr>snapDataStream = ''He'' @ [CR] @ ''World'' @ [CR], snapDrawings = Map.empty,
          snapDrawingsOrder = [],
          snapTextRanges =
            [\<lparr>cursorStartOffset = 2, cursorEndOffset = 2, cursorStyle = ''s''\<rparr>]\<rparr>"
proof -
  let ?acc = "helloWorldAccessor (Some selection25)
        (Some [\<lparr>rangeStartOffset = Some 2, rangeEndOffset = Some 5\<rparr>]) False"
  have snap: "snapshotOf ?acc
      = \<lparr>snapDataStream = helloWorld, snapDrawings = Map.empty, snapDrawingsOrder = [],
         snapTextRanges = [\<lparr>cursorStartOffset = 2, cursorEndOffset = 5, cursorStyle = ''s''\<rparr>]\<rparr>"
    by (simp add: snapshotOf_def helloWorldAccessor_def plainAccessor_def helloWorldDoc_def
        helloWorldBody_def selection25_def)
  have pre: "getCurrentUniverDocInstance ?acc = Some helloWorldDoc"
    "getActiveRange ?acc = Some selection25"
    "getSkeleton ?acc = Some helloWorldSkeleton"
    "getSelections ?acc = Some [\<lparr>rangeStartOffset = Some 2, rangeEndOffset = Some 5\<rparr>]"
    "\<not> collapsed selection25"
    by (simp_all add: helloWorldAccessor_def plainAccessor_def selection25_def)
  have scenario: "getBody helloWorldDoc = Some helloWorldBody
      \<and> 5 \<le> length (dataStream helloWorldBody)
      \<and> startOffset selection25 = 2 \<and> endOffset selection25 = 5"
    by (simp add: helloWorldDoc_def helloWorldBody_def helloWorld_def selection25_def)
  from non_collapsed_delete_cuts [OF pre, of helloWorldBody] scenario
  have "DeleteLeftCommand ?acc
          = Exec (ExecCutContent (segmentId selection25)
              [\<lparr>cursorStartOffset = 2, cursorEndOffset = 2, cursorStyle = style selection25\<rparr>])
        \<and> DeleteRightCommand ?acc
          = Exec (ExecCutContent (segmentId selection25)
              [\<lparr>cursorStartOffset = 2, cursorEndOffset = 2, cursorStyle = style selection25\<rparr>])
        \<and> pressBackspace ?acc
          = Finished True
              ((snapshotOf ?acc)
                 \<lparr>snapDataStream :=
                    take 2 (dataStream helloWorldBody) @ drop 5 (dataStream helloWorldBody),
                  snapTextRanges :=
                    [\<lparr>cursorStartOffset = 2, cursorEndOffset = 2,
                      cursorStyle = style selection25\<rparr>]\<rparr>)"
    by blast
  moreover have "segmentId selection25 = []" "style selection25 = ''s''"
    by (simp_all add: selection25_def)
  moreover have "take 2 (dataStream helloWorldBody) @ drop 5 (dataStream helloWorldBody)
      = ''He'' @ [CR] @ ''World'' @ [CR]"
    by (simp add: helloWorldBody_def helloWorld_def)
  ultimately show ?thesis
    by (simp add: snap)
qed

section \<open>The paragraph written by the bullet branch\<close>

text \<open>
  When the handler writes into the paragraph's own style it goes on to dispatch
  \<open>UpdateCommand\<close>, and the paragraph it hands over carries the style as written: the
  former \<open>hanging\<close> as \<open>indentStart\<close>, and no \<open>hanging\<close>. The document's paragraph
  has then changed before any mutation has run.
\<close>

lemma DeleteLeftCommand_paragraphWrite_dispatch:
  assumes "DeleteLeftCommand_paragraphWrite acc = Some (before, after)"
  shows "\<exists>p ps h. DeleteLeftCommand acc = Exec (ExecUpdate p)
           \<and> paragraphs (updateBody p) = Some [after\<lparr>startIndex := 0, bullet := None\<rparr>]
           \<and> paragraphStyle before = Some ps \<and> hanging ps = Some h \<and> h \<noteq> 0
           \<and> after = before\<lparr>paragraphStyle := Some (ps\<lparr>indentStart := Some h, hanging := None\<rparr>)\<rparr>"
  using assms
  by (auto simp: DeleteLeftCommand_paragraphWrite_def DeleteLeftCommand_def Let_def
      updateParagraphOf_def isUpdateParagraph_def
      split: option.splits if_splits)

lemma DeleteLeftCommand_paragraphWrite_list_paragraph:
  "DeleteLeftCommand_paragraphWrite
     (listDrawingAccessor
        \<lparr>getParagraphByGlyph :=
           (\<lambda>g b. Some \<lparr>startIndex = 7,
                         paragraphStyle = Some \<lparr>hanging = Some 21, indentStart = None, otherStyle = ''left''\<rparr>,
                         bullet = Some ''bullet''\<rparr>)\<rparr>)
   = Some (\<lparr>startIndex = 7,
            paragraphStyle = Some \<lparr>hanging = Some 21, indentStart = None, otherStyle = ''left''\<rparr>,
            bullet = Some ''bullet''\<rparr>,
           \<lparr>startIndex = 7,
            paragraphStyle = Some \<lparr>hanging = None, indentStart = Some 21, otherStyle = ''left''\<rparr>,
            bullet = Some ''bullet''\<rparr>)"
  by (simp add: DeleteLeftCommand_paragraphWrite_def listDrawingAccessor_def
      drawingAccessor_def plainAccessor_def drawingDoc_def drawingSkeleton_def
      textSkeleton_def drawingStream_def collapsedAt_def isUpdateParagraph_def
      sameGlyph_def Let_def)

section \<open>Sheet commands and the undo stack\<close>

lemma syncExecuteCommand_undoStack:
  "undoStack (snd (syncExecuteCommand acc m s)) = undoStack s"
  by (simp add: syncExecuteCommand_def Let_def)

lemma sequenceExecute_undoStack:
  "undoStack (snd (sequenceExecute acc ms s)) = undoStack s"
  by (induction ms arbitrary: s) (auto simp: syncExecuteCommand_def Let_def)

lemma sequenceExecute_ranAll:
  "fst (sequenceExecute acc ms s) = ranAll ms s (snd (sequenceExecute acc ms s))"
proof (induction ms arbitrary: s)
  case Nil
  then show ?case by (simp add: ranAll_def)
next
  case (Cons m ms)
  let ?s1 = "s\<lparr>executed := executed s @ [(m, mutationResult acc m (executed s))]\<rparr>"
  show ?case
  proof (cases "mutationResult acc m (executed s)")
    case True
    then have "sequenceExecute acc (m # ms) s = sequenceExecute acc ms ?s1"
      by (simp add: syncExecuteCommand_def)
    with True Cons.IH [of ?s1] show ?thesis
      by (simp add: ranAll_def)
  next
    case False
    then have "sequenceExecute acc (m # ms) s = (False, ?s1)"
      by (simp add: syncExecuteCommand_def)
    with False show ?thesis
      by (simp add: ranAll_def)
  qed
qed

lemma sequenceExecute_extends:
  "\<exists>ext. executed (snd (sequenceExecute acc ms s)) = executed s @ ext"
proof (induction ms arbitrary: s)
  case Nil
  then show ?case by simp
next
  case (Cons m ms)
  let ?s1 = "s\<lparr>executed := executed s @ [(m, mutationResult acc m (executed s))]\<rparr>"
  from Cons.IH [of ?s1] show ?case
    by (auto simp: syncExecuteCommand_def Let_def)
qed


text \<open>
  C5. Command handlers are to report errors as a false return value and never throw in
  steady-state operation. \<open>DeltaColumnWidthCommand\<close> does throw: once its selections and
  target are there, it ends in a ReferenceError exactly when its mutations all ran and
  returned true (and returns true otherwise), and it never pushes a transaction.
\<close>

theorem DeltaColumnWidthCommand_throws_on_success:
  assumes "getSheetSelections acc = Some selections"
    and "selections \<noteq> []"
    and "getSheetCommandTarget acc = Some target"
  shows "fst (DeltaColumnWidthCommand acc params s)
           = (if ranAll (colWidthMutation (deltaRedoMutationParams target selections params)
                          # redos (onCommandExecute acc ''sheet.command.delta-column-width''))
                        s (snd (DeltaColumnWidthCommand acc params s))
              then Inl ReferenceError else Inr True)
         \<and> undoStack (snd (DeltaColumnWidthCommand acc params s)) = undoStack s"
proof -
  let ?m = "colWidthMutation (deltaRedoMutationParams target selections params)"
  let ?rs = "redos (onCommandExecute acc ''sheet.command.delta-column-width'')"
  have cmd: "DeltaColumnWidthCommand acc params s
      = (case syncExecuteCommand acc ?m s of
           (ok, s1) \<Rightarrow>
             (case sequenceExecute acc ?rs s1 of
                (result, s2) \<Rightarrow>
                  if ok \<and> result then (Inl ReferenceError, s2) else (Inr True, s2)))"
    using assms by (simp add: DeltaColumnWidthCommand_def)
  obtain ok s1 where first: "syncExecuteCommand acc ?m s = (ok, s1)"
    by (cases "syncExecuteCommand acc ?m s")
  have s1: "s1 = s\<lparr>executed := executed s @ [(?m, ok)]\<rparr>"
    using first by (auto simp: syncExecuteCommand_def Let_def)
  obtain result s2 where rest: "sequenceExecute acc ?rs s1 = (result, s2)"
    by (cases "sequenceExecute acc ?rs s1")
  have r: "result = ranAll ?rs s1 s2" and u: "undoStack s2 = undoStack s1"
    using sequenceExecute_ranAll [of acc ?rs s1] sequenceExecute_undoStack [of acc ?rs s1] rest
    by simp_all
  obtain ext where ext: "executed s2 = executed s1 @ ext"
    using sequenceExecute_extends [of acc ?rs s1] rest by auto
  have all: "ranAll (?m # ?rs) s s2 = (ok \<and> result)"
  proof (cases ok)
    case True
    then show ?thesis by (simp add: r ranAll_def s1)
  next
    case False
    then show ?thesis by (simp add: ranAll_def ext s1)
  qed
  have res: "DeltaColumnWidthCommand acc params s
      = (if ok \<and> result then Inl ReferenceError else Inr True, s2)"
    by (simp add: cmd first rest)
  have "undoStack s2 = undoStack s"
    using u by (simp add: s1)
  then show ?thesis
    using all by (simp add: res)
qed

theorem DeltaColumnWidthCommand_throws_on_success_witness:
  "DeltaColumnWidthCommand (sheetAccessor []) \<lparr>anchorCol = 1, deltaX = 10\<rparr> emptySheetState
     = (Inl ReferenceError,
        \<lparr>executed =
           [(colWidthMutation
               \<lparr>colSubUnitId = ''sheet'', colUnitId = ''book'', colRanges = [columnB],
                colWidth = 82\<rparr>, True)],
         undoStack = []\<rparr>)"
proof -
  let ?t = "\<lparr>targetWorksheet = sheet1, targetUnitId = ''book'', targetSubUnitId = ''sheet''\<rparr>"
  let ?p = "\<lparr>anchorCol = 1, deltaX = 10\<rparr>"
  have params: "deltaRedoMutationParams ?t [columnB] ?p
      = \<lparr>colSubUnitId = ''sheet'', colUnitId = ''book'', colRanges = [columnB], colWidth = 82\<rparr>"
    by (simp add: deltaRedoMutationParams_def deltaRangeType_def columnB_def sheet1_def)
  have ran: "snd (DeltaColumnWidthCommand (sheetAccessor []) ?p emptySheetState)
      = \<lparr>executed =
           [(colWidthMutation
               \<lparr>colSubUnitId = ''sheet'', colUnitId = ''book'', colRanges = [columnB],
                colWidth = 82\<rparr>, True)],
         undoStack = []\<rparr>"
    by (simp add: DeltaColumnWidthCommand_def sheetAccessor_def params noInterception_def
        syncExecuteCommand_def emptySheetState_def)
  have sel: "getSheetSelections (sheetAccessor []) = Some [columnB]"
    and tgt: "getSheetCommandTarget (sheetAccessor []) = Some ?t"
    and none: "redos (onCommandExecute (sheetAccessor []) ''sheet.command.delta-column-width'') = []"
    by (simp_all add: sheetAccessor_def noInterception_def)
  have all: "ranAll (colWidthMutation (deltaRedoMutationParams ?t [columnB] ?p)
                       # redos (onCommandExecute (sheetAccessor [])
                                  ''sheet.command.delta-column-width''))
                    emptySheetState
                    (snd (DeltaColumnWidthCommand (sheetAccessor []) ?p emptySheetState))"
    unfolding ran params none by (simp add: ranAll_def emptySheetState_def)
  have "fst (DeltaColumnWidthCommand (sheetAccessor []) ?p emptySheetState) = Inl ReferenceError"
    using DeltaColumnWidthCommand_throws_on_success [OF sel _ tgt, of ?p emptySheetState] all
    by simp
  with ran show ?thesis
    by (simp add: prod_eq_iff)
qed

section \<open>Transactions are pushed when every redo mutation succeeded\<close>






end
